theory Spec2Isabelle
  imports Main "HOL-Library.AList" "HOL-Library.Sublist"
begin

section \<open>Values and the runtime's primitives\<close>

text \<open>
  A request body is a parsed JSON value. An object is the list of its entries in
  enumeration order; a property is read with \<open>map_of\<close> and assigned with
  \<open>AList.update\<close> (in place when the key exists, appended otherwise). Numbers are kept
  abstract (\<open>'n\<close>): the number primitives of the engine are fields of \<open>runtime\<close>.
\<close>

datatype 'n jsval =
    JNull
  | JBool bool
  | JNum 'n
  | JStr string
  | JArr "'n jsval list"
  | JObj "(string \<times> 'n jsval) list"

text \<open>
  An error object as the central handler reads it: \<^verbatim>\<open>err.status\<close> (absent for a plain
  \<^verbatim>\<open>Error\<close>), \<^verbatim>\<open>err.message\<close>, \<^verbatim>\<open>err.stack\<close>.
\<close>

record http_error =
  err_status :: "nat option"
  err_message :: string
  err_stack :: string

text \<open>
  What the code takes from the engine and from the mongodb and http-errors packages:
  \<^item> \<open>is_finite n\<close>: \<^verbatim>\<open>isFinite(n)\<close>; \<open>num_text n\<close>: \<^verbatim>\<open>"" + n\<close>;
    \<open>str_num s\<close>: \<^verbatim>\<open>+s\<close>, \<open>None\<close> when that is NaN; \<open>num_zero\<close>, \<open>num_one\<close>: \<^verbatim>\<open>+false\<close>,
    \<^verbatim>\<open>+true\<close>; \<open>is_zero n\<close>, \<open>is_one n\<close>: \<^verbatim>\<open>n === 0\<close>, \<^verbatim>\<open>n === 1\<close>;
  \<^item> \<open>oid_is_valid\<close>: \<^verbatim>\<open>ObjectId.isValid\<close>; \<open>oid_from_hex\<close>: \<^verbatim>\<open>ObjectId.createFromHexString\<close>,
    \<open>Inl\<close> the error it throws; an ObjectId is identified with its canonical hex text;
  \<^item> \<open>stack_of m\<close>: the stack text the engine attaches to an error created with message \<open>m\<close>.
\<close>

record 'n runtime =
  is_finite :: "'n \<Rightarrow> bool"
  num_text :: "'n \<Rightarrow> string"
  str_num :: "string \<Rightarrow> 'n option"
  num_zero :: 'n
  num_one :: 'n
  is_zero :: "'n \<Rightarrow> bool"
  is_one :: "'n \<Rightarrow> bool"
  oid_is_valid :: "string \<Rightarrow> bool"
  oid_from_hex :: "string \<Rightarrow> http_error + string"
  stack_of :: "string \<Rightarrow> string"

section \<open>Errors, documents, requests and responses\<close>

text \<open>\<^verbatim>\<open>createError(status, message)\<close> of http-errors.\<close>

definition createError :: "'n runtime \<Rightarrow> nat \<Rightarrow> string \<Rightarrow> http_error" where
  "createError rt st msg = \<lparr>err_status = Some st, err_message = msg, err_stack = stack_of rt msg\<rparr>"

text \<open>
  A stored document: its fields in order; a field holds a JSON value, a \<^verbatim>\<open>Date\<close> (as a
  time stamp) or an \<^verbatim>\<open>ObjectId\<close>.
\<close>

datatype 'n field_value = Plain "'n jsval" | DateValue nat | ObjectIdValue string

type_synonym 'n document = "(string \<times> 'n field_value) list"

text \<open>
  The routes the application registers, as Express matches method and path; \<open>Unmatched\<close>
  is any other request. \<^verbatim>\<open>:id\<close> is the text of the path parameter.
\<close>

datatype route =
    ListTodos
  | GetTodo string
  | CreateTodo
  | UpdateTodo string
  | DeleteTodo string
  | HealthCheck
  | ThrowError
  | AuthTest
  | ErrorTest
  | Unmatched

record 'n request =
  req_route :: route
  req_method :: string
  originalUrl :: string
  accepts_json :: bool
  req_body :: "'n jsval"
  req_user :: "'n jsval option"

datatype stack_param = StackText string | StackArray "string list"

record template_params =
  title :: string
  status_code :: "string option"
  heading :: string
  request_line :: string
  tp_message :: string
  tp_stack :: stack_param

text \<open>
  A response: the status and what was sent. \<open>StatusText\<close> is the body of
  \<^verbatim>\<open>res.sendStatus\<close>; \<open>JsonValue\<close>, \<open>JsonDoc\<close> and \<open>JsonDocs\<close> are the argument of
  \<^verbatim>\<open>res.json\<close>; \<open>HtmlPage\<close> is the \<^verbatim>\<open>error\<close> view rendered with these parameters;
  \<open>TextBody\<close> is the argument of \<^verbatim>\<open>res.send\<close>, \<open>EmptyBody\<close> a response ended without a
  body and \<open>FileBody\<close> a file of the \<^verbatim>\<open>public\<close> directory.
\<close>

datatype 'n resp_body =
    StatusText
  | JsonValue "'n jsval"
  | JsonDoc "'n document"
  | JsonDocs "'n document list"
  | HtmlPage template_params
  | TextBody string
  | EmptyBody
  | FileBody

record 'n response =
  res_status :: nat
  res_body :: "'n resp_body"

text \<open>
  What a middleware does with the request: \<^verbatim>\<open>next()\<close>, \<^verbatim>\<open>next(err)\<close> (also a synchronous
  throw, which Express turns into it), or a response of its own.
\<close>

datatype 'n step = Next | NextErr http_error | Respond "'n response"

section \<open>The schema registry (\<^verbatim>\<open>_todo_schema.js\<close>, \<^verbatim>\<open>schema.js\<close>)\<close>

datatype jtype = TString | TNumber | TBoolean

fun type_name :: "jtype \<Rightarrow> string" where
  "type_name TString = ''string''"
| "type_name TNumber = ''number''"
| "type_name TBoolean = ''boolean''"

text \<open>
  A schema object of the registry's shape: \<^verbatim>\<open>type: "object"\<close> (fixed), the \<^verbatim>\<open>required\<close>
  array (\<open>None\<close> once the key is deleted), \<^verbatim>\<open>properties\<close> with a primitive type each, and
  \<^verbatim>\<open>additionalProperties\<close>.
\<close>

record schema_desc =
  required :: "string list option"
  properties :: "(string \<times> jtype) list"
  additionalProperties :: bool

definition todo_schema :: schema_desc where
  "todo_schema =
     \<lparr>required = Some [''task'', ''priority'', ''assigned_to'', ''is_complete''],
      properties = [(''task'', TString), (''priority'', TNumber),
                    (''assigned_to'', TString), (''is_complete'', TBoolean)],
      additionalProperties = False\<rparr>"

text \<open>
  Schema objects live in a store of object cells, so that two references to one object
  are told apart from two objects with equal contents. Addresses below \<open>next_addr\<close> are
  allocated; what a cell above holds is of no account. \<open>schema\<close> is the module object of
  \<^verbatim>\<open>schema.js\<close>: its only own key is \<^verbatim>\<open>todo\<close>, bound to the object at address 0.
\<close>

record heap =
  cells :: "nat \<Rightarrow> schema_desc"
  next_addr :: nat

definition schema :: "string \<Rightarrow> nat option" where
  "schema k = (if k = ''todo'' then Some 0 else None)"

definition initial_heap :: heap where
  "initial_heap = \<lparr>cells = (\<lambda>_. todo_schema), next_addr = 1\<rparr>"

text \<open>\<^verbatim>\<open>JSON.parse(JSON.stringify(o))\<close>: a new object with the contents of \<open>o\<close>.\<close>

definition json_clone :: "heap \<Rightarrow> nat \<Rightarrow> heap \<times> nat" where
  "json_clone h a =
     (h\<lparr>cells := (cells h)(next_addr h := cells h a), next_addr := Suc (next_addr h)\<rparr>,
      next_addr h)"

text \<open>\<^verbatim>\<open>delete o.required\<close>: a write to the object at that address.\<close>

definition delete_required :: "heap \<Rightarrow> nat \<Rightarrow> heap" where
  "delete_required h a = h\<lparr>cells := (cells h)(a := (cells h a)\<lparr>required := None\<rparr>)\<rparr>"

section \<open>The validator library (Ajv 8 with allErrors, coerceTypes, useDefaults)\<close>

record ajv_error =
  keyword :: string
  instancePath :: string
  message :: string

text \<open>The type test of a property schema (numbers must be finite).\<close>

fun has_type :: "'n runtime \<Rightarrow> jtype \<Rightarrow> 'n jsval \<Rightarrow> bool" where
  "has_type rt TString v = (case v of JStr _ \<Rightarrow> True | _ \<Rightarrow> False)"
| "has_type rt TNumber v = (case v of JNum n \<Rightarrow> is_finite rt n | _ \<Rightarrow> False)"
| "has_type rt TBoolean v = (case v of JBool _ \<Rightarrow> True | _ \<Rightarrow> False)"

text \<open>
  The coercion tried on a value of the wrong type; \<open>None\<close> is \<^verbatim>\<open>coerced === undefined\<close>,
  which reports the type error.
\<close>

fun coerce :: "'n runtime \<Rightarrow> jtype \<Rightarrow> 'n jsval \<Rightarrow> 'n jsval option" where
  "coerce rt TString v =
     (case v of
        JNum n \<Rightarrow> Some (JStr (num_text rt n))
      | JBool b \<Rightarrow> Some (JStr (if b then ''true'' else ''false''))
      | JNull \<Rightarrow> Some (JStr '''')
      | _ \<Rightarrow> None)"
| "coerce rt TNumber v =
     (case v of
        JBool b \<Rightarrow> Some (JNum (if b then num_one rt else num_zero rt))
      | JNull \<Rightarrow> Some (JNum (num_zero rt))
      | JStr s \<Rightarrow> (if s = [] then None else map_option JNum (str_num rt s))
      | _ \<Rightarrow> None)"
| "coerce rt TBoolean v =
     (case v of
        JStr s \<Rightarrow> (if s = ''false'' then Some (JBool False)
                   else if s = ''true'' then Some (JBool True) else None)
      | JNum n \<Rightarrow> (if is_zero rt n then Some (JBool False)
                   else if is_one rt n then Some (JBool True) else None)
      | JNull \<Rightarrow> Some (JBool False)
      | _ \<Rightarrow> None)"

text \<open>
  One entry of \<^verbatim>\<open>properties\<close>: skipped when the property is absent; a coerced value is
  assigned to the property of the object under validation.
\<close>

definition check_property ::
  "'n runtime \<Rightarrow> string \<Rightarrow> jtype \<Rightarrow> (string \<times> 'n jsval) list
    \<Rightarrow> (string \<times> 'n jsval) list \<times> ajv_error list" where
  "check_property rt k t kvs =
     (case map_of kvs k of
        None \<Rightarrow> (kvs, [])
      | Some v \<Rightarrow>
          if has_type rt t v then (kvs, [])
          else (case coerce rt t v of
                  Some v' \<Rightarrow> (AList.update k v' kvs, [])
                | None \<Rightarrow> (kvs, [\<lparr>keyword = ''type'', instancePath = ''/'' @ k,
                                  message = ''must be '' @ type_name t\<rparr>])))"

fun check_properties ::
  "'n runtime \<Rightarrow> (string \<times> jtype) list \<Rightarrow> (string \<times> 'n jsval) list
    \<Rightarrow> (string \<times> 'n jsval) list \<times> ajv_error list" where
  "check_properties rt [] kvs = (kvs, [])"
| "check_properties rt ((k, t) # ps) kvs =
     (let (kvs1, e1) = check_property rt k t kvs;
          (kvs2, e2) = check_properties rt ps kvs1
      in (kvs2, e1 @ e2))"

definition required_errors :: "schema_desc \<Rightarrow> (string \<times> 'n jsval) list \<Rightarrow> ajv_error list" where
  "required_errors s kvs =
     (case required s of
        None \<Rightarrow> []
      | Some rs \<Rightarrow>
          map (\<lambda>r. \<lparr>keyword = ''required'', instancePath = '''',
                    message = ''must have required property '' @ [CHR 0x27] @ r @ [CHR 0x27]\<rparr>)
            (filter (\<lambda>r. map_of kvs r = None) rs))"

definition additional_errors :: "schema_desc \<Rightarrow> (string \<times> 'n jsval) list \<Rightarrow> ajv_error list" where
  "additional_errors s kvs =
     (if additionalProperties s then []
      else map (\<lambda>k. \<lparr>keyword = ''additionalProperties'', instancePath = '''',
                     message = ''must NOT have additional properties''\<rparr>)
             (filter (\<lambda>k. k \<notin> set (map fst (properties s))) (map fst kvs)))"

text \<open>
  The function \<^verbatim>\<open>ajv.compile(s)\<close> returns, applied to \<open>data\<close>: the data as the run leaves
  it and \<^verbatim>\<open>validate.errors\<close>. The object keywords run in the library's rule order
  (\<^verbatim>\<open>required\<close>, \<^verbatim>\<open>additionalProperties\<close>, \<^verbatim>\<open>properties\<close>) and, under \<^verbatim>\<open>allErrors\<close>, all of
  them run; a value that is not a plain object fails the root type.
\<close>

definition ajv_validate ::
  "'n runtime \<Rightarrow> schema_desc \<Rightarrow> 'n jsval \<Rightarrow> 'n jsval \<times> ajv_error list" where
  "ajv_validate rt s data =
     (case data of
        JObj kvs \<Rightarrow>
          (let e1 = required_errors s kvs;
               e2 = additional_errors s kvs;
               (kvs', e3) = check_properties rt (properties s) kvs
           in (JObj kvs', e1 @ e2 @ e3))
      | _ \<Rightarrow> (data, [\<lparr>keyword = ''type'', instancePath = '''', message = ''must be object''\<rparr>]))"

text \<open>\<^verbatim>\<open>ajv.compile(schemaCopy)\<close> reads the schema object once, when it compiles.\<close>

definition ajv_compile ::
  "'n runtime \<Rightarrow> heap \<Rightarrow> nat \<Rightarrow> ('n jsval \<Rightarrow> 'n jsval \<times> ajv_error list)" where
  "ajv_compile rt h a = ajv_validate rt (cells h a)"

fun join_with :: "string \<Rightarrow> string list \<Rightarrow> string" where
  "join_with sep [] = []"
| "join_with sep [x] = x"
| "join_with sep (x # y # ys) = x @ sep @ join_with sep (y # ys)"

text \<open>\<^verbatim>\<open>ajv.errorsText(errors)\<close> with the default separator and data variable.\<close>

definition errorsText :: "ajv_error list \<Rightarrow> string" where
  "errorsText errs =
     (if errs = [] then ''No errors''
      else join_with '', '' (map (\<lambda>e. ''data'' @ instancePath e @ '' '' @ message e) errs))"

section \<open>The validation middleware factory (\<^verbatim>\<open>validation.js\<close>)\<close>

text \<open>
  A gate maps \<^verbatim>\<open>req.body\<close> to the body as the gate leaves it and to what it passes to
  \<^verbatim>\<open>next\<close>. \<^verbatim>\<open>validate(req.body)\<close> works on the body object itself.
\<close>

type_synonym 'n gate = "'n jsval \<Rightarrow> 'n jsval \<times> 'n step"

definition unknown_schema_gate :: "'n runtime \<Rightarrow> 'n gate" where
  "unknown_schema_gate rt body = (body, NextErr (createError rt 422 ''Unknown schema type''))"

definition validating_gate ::
  "'n runtime \<Rightarrow> ('n jsval \<Rightarrow> 'n jsval \<times> ajv_error list) \<Rightarrow> 'n gate" where
  "validating_gate rt validate body =
     (let (body', errors) = validate body
      in if errors \<noteq> [] then (body', NextErr (createError rt 422 (errorsText errors)))
         else (body', Next))"

definition getSchemaValidator ::
  "'n runtime \<Rightarrow> heap \<Rightarrow> string \<Rightarrow> string \<Rightarrow> heap \<times> 'n gate" where
  "getSchemaValidator rt h schemaType mode =
     (case schema schemaType of
        None \<Rightarrow> (h, unknown_schema_gate rt)
      | Some baseSchema \<Rightarrow>
          (let (h1, schemaCopy) = json_clone h baseSchema;
               h2 = (if mode = ''partial'' then delete_required h1 schemaCopy else h1)
           in (h2, validating_gate rt (ajv_compile rt h2 schemaCopy))))"

section \<open>Configuration (\<^verbatim>\<open>environment.js\<close>) and the central error handler (\<^verbatim>\<open>app.js\<close>)\<close>

text \<open>
  \<open>node_env\<close> is \<^verbatim>\<open>process.env.NODE_ENV\<close> (\<open>None\<close> when unset); the other fields are the
  values of the getters of \<^verbatim>\<open>Env\<close>.
\<close>

record config =
  node_env :: "string option"
  serviceName :: string
  useSSL :: bool
  serviceUrl :: string
  httpPort :: nat
  httpsPort :: nat

text \<open>\<^verbatim>\<open>a || b\<close> on an environment variable: unset and empty both give \<open>b\<close>.\<close>

definition or_default :: "string option \<Rightarrow> string \<Rightarrow> string" where
  "or_default v d = (case v of None \<Rightarrow> d | Some s \<Rightarrow> if s = [] then d else s)"

text \<open>\<^verbatim>\<open>env.environment\<close>.\<close>

definition environment :: "config \<Rightarrow> string" where
  "environment cfg = or_default (node_env cfg) ''production''"

text \<open>
  \<^verbatim>\<open>req.app.get("env")\<close>: the setting Express initialises to
  \<^verbatim>\<open>process.env.NODE_ENV || "development"\<close>; the application never sets it.
\<close>

definition app_env :: "config \<Rightarrow> string" where
  "app_env cfg = or_default (node_env cfg) ''development''"

definition digit_char :: "nat \<Rightarrow> char" where
  "digit_char d = char_of (48 + d)"

fun show_nat :: "nat \<Rightarrow> string" where
  "show_nat n = (if n < 10 then [digit_char n] else show_nat (n div 10) @ [digit_char (n mod 10)])"

text \<open>
  \<^verbatim>\<open>getErrorTemplateParams(err, req)\<close> of \<^verbatim>\<open>error_utils.js\<close>, on the three fields it reads
  from \<^verbatim>\<open>err\<close>.
\<close>

definition getErrorTemplateParams ::
  "config \<Rightarrow> nat option \<Rightarrow> string \<Rightarrow> stack_param \<Rightarrow> 'n request \<Rightarrow> template_params" where
  "getErrorTemplateParams cfg st msg stk req =
     \<lparr>title = serviceName cfg @ '' - Error'',
      status_code = map_option show_nat st,
      heading = serviceName cfg @ '' - Error'',
      request_line = req_method req @ '' '' @ (if useSSL cfg then ''https'' else ''http'') @ ''://''
         @ serviceUrl cfg @ '':'' @ show_nat (if useSSL cfg then httpsPort cfg else httpPort cfg)
         @ originalUrl req,
      tp_message = msg,
      tp_stack = stk\<rparr>"

text \<open>\<^verbatim>\<open>err.status || 500\<close>.\<close>

definition status_or_500 :: "http_error \<Rightarrow> nat" where
  "status_or_500 err = (case err_status err of None \<Rightarrow> 500 | Some st \<Rightarrow> if st = 0 then 500 else st)"

definition error_handler :: "config \<Rightarrow> http_error \<Rightarrow> 'n request \<Rightarrow> 'n response" where
  "error_handler cfg err req =
     (if accepts_json req then
        \<lparr>res_status = status_or_500 err,
         res_body = JsonValue (JObj [(''error'', JObj
           ((''message'', JStr (err_message err))
            # (if app_env cfg = ''development'' then [(''stack'', JStr (err_stack err))] else [])))])\<rparr>
      else
        \<lparr>res_status = status_or_500 err,
         res_body = HtmlPage
           (if environment cfg = ''development''
            then getErrorTemplateParams cfg (err_status err) (err_message err)
                   (StackText (err_stack err)) req
            else getErrorTemplateParams cfg None ''Your request is in error.'' (StackArray []) req)\<rparr>)"

section \<open>Authentication stub and identifier check\<close>

definition stub_user :: "'n jsval" where
  "stub_user = JObj [(''id'', JStr ''placeholder-user-id''), (''username'', JStr ''stub_user''),
                     (''roles'', JArr [JStr ''user''])]"

definition authenticate_user :: "'n request \<Rightarrow> 'n request \<times> 'n step" where
  "authenticate_user req = (req\<lparr>req_user := Some stub_user\<rparr>, Next)"

definition validateObjectIdParamHandler :: "'n runtime \<Rightarrow> string \<Rightarrow> 'n step" where
  "validateObjectIdParamHandler rt v =
     (if \<not> oid_is_valid rt v
      then Respond \<lparr>res_status = 400,
                    res_body = JsonValue (JObj [(''error'', JStr ''Invalid ObjectId'')])\<rparr>
      else Next)"

definition castObjectId :: "'n runtime \<Rightarrow> string \<Rightarrow> http_error + string" where
  "castObjectId rt i = oid_from_hex rt i"

section \<open>The document store (the \<^verbatim>\<open>todos\<close> collection behind \<^verbatim>\<open>db._db\<close>)\<close>

text \<open>
  The collection is the list of its documents, each with its \<^verbatim>\<open>_id\<close> field first. When
  \<open>fault\<close> is \<open>Some e\<close> the server cannot be reached and every command rejects with \<open>e\<close>.
  \<^verbatim>\<open>db._db\<close> is \<open>None\<close> until \<^verbatim>\<open>connect\<close> has run.
\<close>

record 'n store =
  fault :: "http_error option"
  docs :: "'n document list"

record update_result =
  matchedCount :: nat
  modifiedCount :: nat

definition has_id :: "'n field_value \<Rightarrow> 'n document \<Rightarrow> bool" where
  "has_id idv d = (map_of d ''_id'' = Some idv)"

text \<open>Assigning the entries of \<open>upd\<close>, in order, to the object \<open>d\<close> (\<^verbatim>\<open>$set\<close>, object spread).\<close>

definition set_fields :: "('k \<times> 'v) list \<Rightarrow> ('k \<times> 'v) list \<Rightarrow> ('k \<times> 'v) list" where
  "set_fields d upd = foldl (\<lambda>acc (k, v). AList.update k v acc) d upd"

fun replace_first :: "('a \<Rightarrow> bool) \<Rightarrow> 'a \<Rightarrow> 'a list \<Rightarrow> 'a list" where
  "replace_first P y [] = []"
| "replace_first P y (x # xs) = (if P x then y # xs else x # replace_first P y xs)"

fun remove_first :: "('a \<Rightarrow> bool) \<Rightarrow> 'a list \<Rightarrow> 'a list" where
  "remove_first P [] = []"
| "remove_first P (x # xs) = (if P x then xs else x # remove_first P xs)"

definition find_all :: "'n store \<Rightarrow> http_error + 'n document list" where
  "find_all s = (case fault s of Some e \<Rightarrow> Inl e | None \<Rightarrow> Inr (docs s))"

definition findOne :: "'n store \<Rightarrow> string \<Rightarrow> http_error + 'n document option" where
  "findOne s oid =
     (case fault s of Some e \<Rightarrow> Inl e
      | None \<Rightarrow> Inr (find (has_id (ObjectIdValue oid)) (docs s)))"

text \<open>
  \<^verbatim>\<open>insertOne(doc)\<close>: the driver gives a document without \<^verbatim>\<open>_id\<close> the new ObjectId
  \<open>new_oid\<close> (assigning it to the object passed in); an \<^verbatim>\<open>_id\<close> already in the collection is
  a duplicate-key error. Returns \<^verbatim>\<open>insertedId\<close>, the object passed in as the driver
  leaves it, and the store.
\<close>

definition insertOne ::
  "'n runtime \<Rightarrow> 'n store \<Rightarrow> 'n document \<Rightarrow> string
     \<Rightarrow> http_error + ('n field_value \<times> 'n document \<times> 'n store)" where
  "insertOne rt s doc new_oid =
     (case fault s of Some e \<Rightarrow> Inl e
      | None \<Rightarrow>
         (let idv = (case map_of doc ''_id'' of
                       None \<Rightarrow> ObjectIdValue new_oid
                     | Some (Plain JNull) \<Rightarrow> ObjectIdValue new_oid
                     | Some v \<Rightarrow> v)
          in if list_ex (has_id idv) (docs s)
             then Inl \<lparr>err_status = None, err_message = ''E11000 duplicate key error'',
                       err_stack = stack_of rt ''E11000 duplicate key error''\<rparr>
             else Inr (idv, AList.update ''_id'' idv doc,
                       s\<lparr>docs := docs s @ [(''_id'', idv) # AList.delete ''_id'' doc]\<rparr>)))"

text \<open>
  \<^verbatim>\<open>updateOne({_id: oid}, {$set: upd})\<close>: the first document with that \<^verbatim>\<open>_id\<close> gets the
  fields of \<open>upd\<close>; \<^verbatim>\<open>modifiedCount\<close> counts it only when the document changed.
\<close>

definition updateOne ::
  "'n store \<Rightarrow> string \<Rightarrow> 'n document \<Rightarrow> http_error + (update_result \<times> 'n store)" where
  "updateOne s oid upd =
     (case fault s of Some e \<Rightarrow> Inl e
      | None \<Rightarrow>
         (case find (has_id (ObjectIdValue oid)) (docs s) of
            None \<Rightarrow> Inr (\<lparr>matchedCount = 0, modifiedCount = 0\<rparr>, s)
          | Some d \<Rightarrow>
              (let d' = set_fields d upd
               in Inr (\<lparr>matchedCount = 1, modifiedCount = (if d' = d then 0 else 1)\<rparr>,
                       s\<lparr>docs := replace_first (has_id (ObjectIdValue oid)) d' (docs s)\<rparr>))))"

definition deleteOne :: "'n store \<Rightarrow> string \<Rightarrow> http_error + (nat \<times> 'n store)" where
  "deleteOne s oid =
     (case fault s of Some e \<Rightarrow> Inl e
      | None \<Rightarrow>
         (if list_ex (has_id (ObjectIdValue oid)) (docs s)
          then Inr (1, s\<lparr>docs := remove_first (has_id (ObjectIdValue oid)) (docs s)\<rparr>)
          else Inr (0, s)))"

section \<open>The todo module (\<^verbatim>\<open>todo_demo_module.js\<close>)\<close>

text \<open>An error thrown without a status (a \<^verbatim>\<open>TypeError\<close>, a driver error, \<^verbatim>\<open>new Error(msg)\<close>).\<close>

definition plain_error :: "'n runtime \<Rightarrow> string \<Rightarrow> http_error" where
  "plain_error rt msg = \<lparr>err_status = None, err_message = msg, err_stack = stack_of rt msg\<rparr>"

text \<open>The getter \<^verbatim>\<open>collection\<close>: \<^verbatim>\<open>db._db.collection(...)\<close> throws on a null handle.\<close>

definition collection :: "'n runtime \<Rightarrow> 'n store option \<Rightarrow> http_error + 'n store" where
  "collection rt db =
     (case db of
        None \<Rightarrow> Inl (plain_error rt ''Cannot read properties of null'')
      | Some s \<Rightarrow> Inr s)"

definition listAll :: "'n runtime \<Rightarrow> 'n store option \<Rightarrow> http_error + 'n document list" where
  "listAll rt db = (case collection rt db of Inl e \<Rightarrow> Inl e | Inr s \<Rightarrow> find_all s)"

definition getById ::
  "'n runtime \<Rightarrow> 'n store option \<Rightarrow> string \<Rightarrow> http_error + 'n document option" where
  "getById rt db i =
     (case collection rt db of Inl e \<Rightarrow> Inl e
      | Inr s \<Rightarrow> (case castObjectId rt i of Inl e \<Rightarrow> Inl e | Inr oid \<Rightarrow> findOne s oid))"

text \<open>
  \<^verbatim>\<open>create(todo)\<close> with \<^verbatim>\<open>todo = req.body\<close>, at time \<open>now\<close>. A body that is not an object
  cannot carry the new property; the strict gate in front of the handler lets only
  objects through.
\<close>

definition create ::
  "'n runtime \<Rightarrow> nat \<Rightarrow> string \<Rightarrow> 'n store option \<Rightarrow> 'n jsval
     \<Rightarrow> http_error + ('n document \<times> 'n store)" where
  "create rt now new_oid db body =
     (case body of
        JObj kvs \<Rightarrow>
          (let todo = AList.update ''date_created'' (DateValue now)
                        (map (\<lambda>(k, v). (k, Plain v)) kvs)
           in case collection rt db of Inl e \<Rightarrow> Inl e
              | Inr s \<Rightarrow>
                  (case insertOne rt s todo new_oid of Inl e \<Rightarrow> Inl e
                   | Inr (insertedId, todo', s') \<Rightarrow>
                       Inr (set_fields [(''_id'', insertedId)] todo', s')))
      | _ \<Rightarrow> Inl (plain_error rt ''Cannot create property date_created''))"

text \<open>\<^verbatim>\<open>update(id, update)\<close> with \<^verbatim>\<open>update = req.body\<close>; \<^verbatim>\<open>$set\<close> takes an object only.\<close>

definition update ::
  "'n runtime \<Rightarrow> 'n store option \<Rightarrow> string \<Rightarrow> 'n jsval \<Rightarrow> http_error + (bool \<times> 'n store)" where
  "update rt db i body =
     (case collection rt db of Inl e \<Rightarrow> Inl e
      | Inr s \<Rightarrow>
         (case castObjectId rt i of Inl e \<Rightarrow> Inl e
          | Inr oid \<Rightarrow>
             (case body of
                JObj kvs \<Rightarrow>
                  (case updateOne s oid (map (\<lambda>(k, v). (k, Plain v)) kvs) of Inl e \<Rightarrow> Inl e
                   | Inr (result, s') \<Rightarrow> Inr (modifiedCount result > 0, s'))
              | _ \<Rightarrow> Inl (plain_error rt ''Modifiers operate on fields''))))"

definition delete ::
  "'n runtime \<Rightarrow> 'n store option \<Rightarrow> string \<Rightarrow> http_error + (bool \<times> 'n store)" where
  "delete rt db i =
     (case collection rt db of Inl e \<Rightarrow> Inl e
      | Inr s \<Rightarrow>
         (case castObjectId rt i of Inl e \<Rightarrow> Inl e
          | Inr oid \<Rightarrow>
             (case deleteOne s oid of Inl e \<Rightarrow> Inl e
              | Inr (deletedCount, s') \<Rightarrow> Inr (deletedCount > 0, s'))))"

section \<open>Route handlers (\<^verbatim>\<open>todo_demo_routes_index.js\<close>, \<^verbatim>\<open>diagnostic_routes_index.js\<close>,
  \<^verbatim>\<open>html_routes_index.js\<close>)\<close>

definition sendStatus :: "nat \<Rightarrow> 'n response" where
  "sendStatus code = \<lparr>res_status = code, res_body = StatusText\<rparr>"

definition list_handler :: "'n runtime \<Rightarrow> 'n store option \<Rightarrow> 'n step" where
  "list_handler rt db =
     (case listAll rt db of
        Inr all \<Rightarrow> Respond \<lparr>res_status = 200, res_body = JsonDocs all\<rparr>
      | Inl err \<Rightarrow> NextErr err)"

definition get_handler :: "'n runtime \<Rightarrow> 'n store option \<Rightarrow> string \<Rightarrow> 'n step" where
  "get_handler rt db i =
     (case getById rt db i of
        Inr None \<Rightarrow> NextErr (createError rt 404 ''Todo not found'')
      | Inr (Some todo) \<Rightarrow> Respond \<lparr>res_status = 200, res_body = JsonDoc todo\<rparr>
      | Inl err \<Rightarrow> NextErr err)"

definition post_handler ::
  "'n runtime \<Rightarrow> nat \<Rightarrow> string \<Rightarrow> 'n store option \<Rightarrow> 'n jsval \<Rightarrow> 'n store option \<times> 'n step" where
  "post_handler rt now new_oid db body =
     (case create rt now new_oid db body of
        Inr (newTodo, s') \<Rightarrow> (Some s', Respond \<lparr>res_status = 201, res_body = JsonDoc newTodo\<rparr>)
      | Inl err \<Rightarrow> (db, NextErr err))"

definition put_handler ::
  "'n runtime \<Rightarrow> 'n store option \<Rightarrow> string \<Rightarrow> 'n jsval \<Rightarrow> 'n store option \<times> 'n step" where
  "put_handler rt db i body =
     (case update rt db i body of
        Inr (success, s') \<Rightarrow>
          (if \<not> success then (Some s', NextErr (createError rt 404 ''Todo not found or not modified''))
           else (Some s', Respond (sendStatus 204)))
      | Inl err \<Rightarrow> (db, NextErr err))"

definition delete_handler ::
  "'n runtime \<Rightarrow> 'n store option \<Rightarrow> string \<Rightarrow> 'n store option \<times> 'n step" where
  "delete_handler rt db i =
     (case delete rt db i of
        Inr (success, s') \<Rightarrow>
          (if \<not> success then (Some s', NextErr (createError rt 404 ''Todo not found''))
           else (Some s', Respond (sendStatus 204)))
      | Inl err \<Rightarrow> (db, NextErr err))"

text \<open>\<^verbatim>\<open>GET /v1/health_check\<close>: the ping, with every failure caught.\<close>

definition health_check :: "'n store option \<Rightarrow> 'n step" where
  "health_check db =
     (case db of
        None \<Rightarrow> Respond (sendStatus 503)
      | Some s \<Rightarrow> (case fault s of Some e \<Rightarrow> Respond (sendStatus 503)
                   | None \<Rightarrow> Respond (sendStatus 200)))"

definition throw_error :: "'n runtime \<Rightarrow> config \<Rightarrow> 'n step" where
  "throw_error rt cfg =
     (if environment cfg \<noteq> ''development'' \<and> environment cfg \<noteq> ''test''
      then Respond (sendStatus 404)
      else NextErr (plain_error rt
             ([CHR 0xF0, CHR 0x9F, CHR 0x92, CHR 0xA5]
               @ '' Uncaught test exception from /v1/throw_error'')))"

definition auth_test :: "config \<Rightarrow> 'n request \<Rightarrow> 'n step" where
  "auth_test cfg req =
     (if environment cfg \<noteq> ''development'' \<and> environment cfg \<noteq> ''test''
      then Respond (sendStatus 404)
      else Respond \<lparr>res_status = 200,
             res_body = JsonValue (JObj (case req_user req of
                                           None \<Rightarrow> []
                                         | Some u \<Rightarrow> [(''authenticated_user'', u)]))\<rparr>)"

text \<open>\<^verbatim>\<open>GET /v1/error_test\<close>; the mock error carries the status as the text \<^verbatim>\<open>"500"\<close>.\<close>

definition error_test :: "'n runtime \<Rightarrow> config \<Rightarrow> 'n request \<Rightarrow> 'n step" where
  "error_test rt cfg req =
     (if environment cfg = ''development'' \<or> environment cfg = ''test''
      then Respond \<lparr>res_status = 200,
             res_body = HtmlPage ((getErrorTemplateParams cfg None
                ''This is a test of the error reporting system.''
                (StackText (stack_of rt ''This is a test of the error reporting system.'')) req)
                \<lparr>status_code := Some ''500''\<rparr>)\<rparr>
      else NextErr (createError rt 404 ''Not Found''))"

section \<open>The application (\<^verbatim>\<open>app.js\<close>): route stacks and dispatch\<close>

text \<open>
  The stages a request can pass through. A middleware takes the store handle and the
  request and returns both with its step. Express runs a route's stack left to right
  and goes on to the next entry only on \<^verbatim>\<open>next()\<close>; the callback of \<^verbatim>\<open>app.param("id")\<close> runs
  before the stack of any route with an \<^verbatim>\<open>:id\<close> parameter.
\<close>

datatype stage =
    ParamCheck | Authenticate | Validator | Handler | NotFoundHandler | ErrorHandler
  | Cors | RateLimit | BodyParser | Static

type_synonym 'n middleware =
  "'n store option \<Rightarrow> 'n request \<Rightarrow> 'n store option \<times> 'n request \<times> 'n step"

fun run_stack ::
  "(stage \<times> 'n middleware) list \<Rightarrow> 'n store option \<Rightarrow> 'n request
     \<Rightarrow> 'n store option \<times> 'n request \<times> 'n step \<times> stage list" where
  "run_stack [] db req = (db, req, Next, [])"
| "run_stack ((nm, m) # ms) db req =
     (case m db req of
        (db1, req1, Next) \<Rightarrow>
          (case run_stack ms db1 req1 of (db2, req2, st, tr) \<Rightarrow> (db2, req2, st, nm # tr))
      | (db1, req1, st) \<Rightarrow> (db1, req1, st, [nm]))"

definition param_mw :: "'n runtime \<Rightarrow> string \<Rightarrow> stage \<times> 'n middleware" where
  "param_mw rt v = (ParamCheck, \<lambda>db req. (db, req, validateObjectIdParamHandler rt v))"

definition auth_mw :: "stage \<times> 'n middleware" where
  "auth_mw = (Authenticate, \<lambda>db req. (case authenticate_user req of (req', st) \<Rightarrow> (db, req', st)))"

text \<open>A gate as a stage: \<^verbatim>\<open>req.body\<close> is the object the validator worked on.\<close>

definition validator_mw :: "'n gate \<Rightarrow> stage \<times> 'n middleware" where
  "validator_mw g =
     (Validator, \<lambda>db req. (case g (req_body req) of (b, st) \<Rightarrow> (db, req\<lparr>req_body := b\<rparr>, st)))"

text \<open>
  The two gates the todo routes build when the module is loaded:
  \<^verbatim>\<open>getSchemaValidator("todo")\<close> and \<^verbatim>\<open>getSchemaValidator("todo", "partial")\<close>.
\<close>

record 'n app =
  create_gate :: "'n gate"
  update_gate :: "'n gate"

definition load_routes :: "'n runtime \<Rightarrow> 'n app" where
  "load_routes rt =
     (case getSchemaValidator rt initial_heap ''todo'' ''strict'' of
        (h1, g1) \<Rightarrow>
          (case getSchemaValidator rt h1 ''todo'' ''partial'' of
             (h2, g2) \<Rightarrow> \<lparr>create_gate = g1, update_gate = g2\<rparr>))"

text \<open>What the engine supplies while a request runs: the clock and the driver's next id.\<close>

record inputs =
  now :: nat
  new_oid :: string

definition route_stack ::
  "'n runtime \<Rightarrow> config \<Rightarrow> 'n app \<Rightarrow> inputs \<Rightarrow> route \<Rightarrow> (stage \<times> 'n middleware) list" where
  "route_stack rt cfg ap inp r =
     (case r of
        ListTodos \<Rightarrow> [auth_mw, (Handler, \<lambda>db req. (db, req, list_handler rt db))]
      | GetTodo i \<Rightarrow> [param_mw rt i, auth_mw, (Handler, \<lambda>db req. (db, req, get_handler rt db i))]
      | CreateTodo \<Rightarrow>
          [auth_mw, validator_mw (create_gate ap),
           (Handler, \<lambda>db req. (case post_handler rt (now inp) (new_oid inp) db (req_body req) of
                                  (db', st) \<Rightarrow> (db', req, st)))]
      | UpdateTodo i \<Rightarrow>
          [param_mw rt i, auth_mw, validator_mw (update_gate ap),
           (Handler, \<lambda>db req. (case put_handler rt db i (req_body req) of
                                  (db', st) \<Rightarrow> (db', req, st)))]
      | DeleteTodo i \<Rightarrow>
          [param_mw rt i, auth_mw,
           (Handler, \<lambda>db req. (case delete_handler rt db i of (db', st) \<Rightarrow> (db', req, st)))]
      | HealthCheck \<Rightarrow> [(Handler, \<lambda>db req. (db, req, health_check db))]
      | ThrowError \<Rightarrow> [(Handler, \<lambda>db req. (db, req, throw_error rt cfg))]
      | AuthTest \<Rightarrow> [auth_mw, (Handler, \<lambda>db req. (db, req, auth_test cfg req))]
      | ErrorTest \<Rightarrow> [(Handler, \<lambda>db req. (db, req, error_test rt cfg req))]
      | Unmatched \<Rightarrow> [])"

text \<open>
  One request from the route table on (the routes, the 404 handler and the central
  error handler): the response, the store handle afterwards and the stages that ran.
  A stack that ends in \<^verbatim>\<open>next()\<close> reaches the 404 handler, which forwards
  \<^verbatim>\<open>createError(404)\<close>; every forwarded error is rendered by the central handler.
\<close>

definition handle_request ::
  "'n runtime \<Rightarrow> config \<Rightarrow> 'n app \<Rightarrow> inputs \<Rightarrow> 'n store option \<Rightarrow> 'n request
     \<Rightarrow> 'n response \<times> 'n store option \<times> stage list" where
  "handle_request rt cfg ap inp db req =
     (case run_stack (route_stack rt cfg ap inp (req_route req)) db req of
        (db', req', Respond resp, tr) \<Rightarrow> (resp, db', tr)
      | (db', req', Next, tr) \<Rightarrow>
          (error_handler cfg (createError rt 404 ''Not Found'') req', db',
           tr @ [NotFoundHandler, ErrorHandler])
      | (db', req', NextErr err, tr) \<Rightarrow> (error_handler cfg err req', db', tr @ [ErrorHandler]))"






section \<open>Notions used to state the properties\<close>

text \<open>
  The schema object a call \<^verbatim>\<open>getSchemaValidator("todo", mode)\<close> compiles, read off the
  store: the contents of the registry's object, without \<^verbatim>\<open>required\<close> in partial mode.
\<close>

definition compiled_schema :: "heap \<Rightarrow> string \<Rightarrow> schema_desc" where
  "compiled_schema h mode =
     (if mode = ''partial'' then (cells h 0)\<lparr>required := None\<rparr> else cells h 0)"

text \<open>A value that has the declared type or can be coerced to it.\<close>

definition coercible :: "'n runtime \<Rightarrow> jtype \<Rightarrow> 'n jsval \<Rightarrow> bool" where
  "coercible rt t v = (has_type rt t v \<or> coerce rt t v \<noteq> None)"

definition field_ok :: "'n runtime \<Rightarrow> (string \<times> 'n jsval) list \<Rightarrow> string \<times> jtype \<Rightarrow> bool" where
  "field_ok rt kvs p = (case map_of kvs (fst p) of None \<Rightarrow> True | Some v \<Rightarrow> coercible rt (snd p) v)"

text \<open>Every declared property that is present is of its type or coercible to it.\<close>

definition types_ok ::
  "'n runtime \<Rightarrow> (string \<times> jtype) list \<Rightarrow> (string \<times> 'n jsval) list \<Rightarrow> bool" where
  "types_ok rt ps kvs = list_all (field_ok rt kvs) ps"

text \<open>No property outside the declared ones.\<close>

definition closed_ok :: "(string \<times> jtype) list \<Rightarrow> (string \<times> 'n jsval) list \<Rightarrow> bool" where
  "closed_ok ps kvs = list_all (\<lambda>k. k \<in> set (map fst ps)) (map fst kvs)"

text \<open>
  The value a property holds after validation: the coerced value when it is declared,
  of the wrong type and coercible; its own value otherwise.
\<close>

definition coerced_value ::
  "'n runtime \<Rightarrow> (string \<times> jtype) list \<Rightarrow> string \<Rightarrow> 'n jsval \<Rightarrow> 'n jsval" where
  "coerced_value rt ps k v =
     (case map_of ps k of
        None \<Rightarrow> v
      | Some t \<Rightarrow> if has_type rt t v then v
                  else (case coerce rt t v of Some v' \<Rightarrow> v' | None \<Rightarrow> v))"

text \<open>A sequence of compilations \<^verbatim>\<open>getSchemaValidator(name, mode)\<close>, in order, on one store.\<close>

fun compile_all :: "'n runtime \<Rightarrow> heap \<Rightarrow> (string \<times> string) list \<Rightarrow> heap" where
  "compile_all rt h [] = h"
| "compile_all rt h ((name, mode) # cs) =
     compile_all rt (fst (getSchemaValidator rt h name mode)) cs"





section \<open>A concrete runtime and configuration for evaluation\<close>

text \<open>
  An instance with integer numbers: numeric text is a string of decimal digits, an
  ObjectId text is 24 hexadecimal digits and its canonical form is lower case. It
  serves to run the definitions at concrete inputs.
\<close>

definition digit_value :: "char \<Rightarrow> int option" where
  "digit_value c = (if c \<in> set ''0123456789'' then Some (of_char c - 48) else None)"

fun digits_num :: "int \<Rightarrow> string \<Rightarrow> int option" where
  "digits_num acc [] = Some acc"
| "digits_num acc (c # cs) =
     (case digit_value c of None \<Rightarrow> None | Some d \<Rightarrow> digits_num (10 * acc + d) cs)"

definition is_hex :: "char \<Rightarrow> bool" where
  "is_hex c = (c \<in> set ''0123456789abcdefABCDEF'')"

definition lower_hex :: "char \<Rightarrow> char" where
  "lower_hex c = (if c \<in> set ''ABCDEF'' then char_of (of_char c + (32::nat)) else c)"

definition int_runtime :: "int runtime" where
  "int_runtime =
     \<lparr>is_finite = (\<lambda>_. True),
      num_text = (\<lambda>n. if n < 0 then ''-'' @ show_nat (nat (- n)) else show_nat (nat n)),
      str_num = digits_num 0,
      num_zero = 0,
      num_one = 1,
      is_zero = (\<lambda>n. n = 0),
      is_one = (\<lambda>n. n = 1),
      oid_is_valid = (\<lambda>s. length s = 24 \<and> list_all is_hex s),
      oid_from_hex = (\<lambda>s. if length s = 24 \<and> list_all is_hex s then Inr (map lower_hex s)
                          else Inl \<lparr>err_status = None, err_message = ''hex string must be 24 characters'',
                                    err_stack = ''BSONError''\<rparr>),
      stack_of = (\<lambda>m. ''Error: '' @ m)\<rparr>"

definition test_config :: config where
  "test_config =
     \<lparr>node_env = Some ''test'', serviceName = ''API'', useSSL = False,
      serviceUrl = ''localhost'', httpPort = 3000, httpsPort = 4443\<rparr>"

text \<open>The configuration when no environment variable is set (the defaults of \<^verbatim>\<open>Env\<close>).\<close>

definition default_config :: config where
  "default_config =
     \<lparr>node_env = None, serviceName = ''API'', useSSL = False,
      serviceUrl = [], httpPort = 3000, httpsPort = 4443\<rparr>"

definition html_request :: "route \<Rightarrow> string \<Rightarrow> string \<Rightarrow> int jsval \<Rightarrow> int request" where
  "html_request r m url b =
     \<lparr>req_route = r, req_method = m, originalUrl = url, accepts_json = False,
      req_body = b, req_user = None\<rparr>"



definition json_request :: "route \<Rightarrow> string \<Rightarrow> string \<Rightarrow> int jsval \<Rightarrow> int request" where
  "json_request r m url b =
     \<lparr>req_route = r, req_method = m, originalUrl = url, accepts_json = True,
      req_body = b, req_user = None\<rparr>"

definition empty_store :: "int store" where
  "empty_store = \<lparr>fault = None, docs = []\<rparr>"

definition sample_oid :: string where
  "sample_oid = ''507f1f77bcf86cd799439011''"

definition test_inputs :: inputs where
  "test_inputs = \<lparr>now = 1700000000, new_oid = sample_oid\<rparr>"

text \<open>A store holding one todo, and a partial update that repeats its value.\<close>

definition seeded_doc :: "int document" where
  "seeded_doc =
     [(''_id'', ObjectIdValue sample_oid), (''task'', Plain (JStr ''Seed task 1'')),
      (''priority'', Plain (JNum 1)), (''assigned_to'', Plain (JStr ''alice'')),
      (''is_complete'', Plain (JBool True)), (''date_created'', DateValue 1699999999)]"

definition seeded_store :: "int store" where
  "seeded_store = \<lparr>fault = None, docs = [seeded_doc]\<rparr>"

text \<open>
  A body the strict gate accepts by coercion (\<^verbatim>\<open>is_complete\<close> is the text \<^verbatim>\<open>"false"\<close>), and
  the document the application creates from it.
\<close>

definition loose_fields :: "(string \<times> int jsval) list" where
  "loose_fields =
     [(''task'', JStr ''x''), (''priority'', JNum 1), (''assigned_to'', JStr ''a''),
      (''is_complete'', JStr ''false'')]"

definition loose_doc :: "int document" where
  "loose_doc =
     [(''_id'', ObjectIdValue sample_oid), (''task'', Plain (JStr ''x'')),
      (''priority'', Plain (JNum 1)), (''assigned_to'', Plain (JStr ''a'')),
      (''is_complete'', Plain (JBool False)), (''date_created'', DateValue 1700000000)]"

section \<open>Facts about the validator\<close>

lemma sublist_join_with: "x \<in> set xs \<Longrightarrow> sublist x (join_with sep xs)"
proof (induction sep xs rule: join_with.induct)
  case (3 sep a b bs)
  show ?case
  proof (cases "x = a")
    case True then show ?thesis by simp
  next
    case False
    with 3 have "sublist x (join_with sep (b # bs))" by simp
    then obtain p s where "join_with sep (b # bs) = p @ x @ s" by (auto simp: sublist_def)
    then have "join_with sep (a # b # bs) = (a @ sep @ p) @ x @ s" by simp
    then show ?thesis unfolding sublist_def by blast
  qed
qed simp_all

lemma sublist_errorsText:
  assumes "e \<in> set errs" shows "sublist (message e) (errorsText errs)"
proof -
  let ?f = "\<lambda>e. ''data'' @ instancePath e @ '' '' @ message e"
  have "?f e \<in> set (map ?f errs)" using assms by simp
  then have "sublist (?f e) (join_with '', '' (map ?f errs))" by (rule sublist_join_with)
  moreover have "sublist (message e) (?f e)"
    using sublist_appendI[of "message e" "''data'' @ instancePath e @ '' ''" "[]"] by simp
  moreover have "errs \<noteq> []" using assms by auto
  ultimately show ?thesis
    unfolding errorsText_def by (auto intro: sublist_order.order_trans)
qed

lemma getSchemaValidator_todo:
  "getSchemaValidator rt h ''todo'' mode =
     (h\<lparr>cells := (cells h)(next_addr h := compiled_schema h mode), next_addr := Suc (next_addr h)\<rparr>,
      validating_gate rt (ajv_validate rt (compiled_schema h mode)))"
  by (simp add: getSchemaValidator_def schema_def json_clone_def delete_required_def
      ajv_compile_def compiled_schema_def)

lemma gate_on_object:
  "validating_gate rt (ajv_validate rt s) (JObj kvs) =
     (JObj (fst (check_properties rt (properties s) kvs)),
      if required_errors s kvs = [] \<and> additional_errors s kvs = []
          \<and> snd (check_properties rt (properties s) kvs) = []
      then Next
      else NextErr (createError rt 422 (errorsText
             (required_errors s kvs @ additional_errors s kvs
               @ snd (check_properties rt (properties s) kvs)))))"
  by (simp add: validating_gate_def ajv_validate_def Let_def split: prod.splits)

lemma gate_on_non_object:
  "(\<And>kvs. b \<noteq> JObj kvs) \<Longrightarrow>
   validating_gate rt (ajv_validate rt s) b =
     (b, NextErr (createError rt 422 ''data must be object''))"
  by (cases b) (auto simp add: validating_gate_def ajv_validate_def errorsText_def)

lemma other_key_check_property:
  "k' \<noteq> k \<Longrightarrow> map_of (fst (check_property rt k t kvs)) k' = map_of kvs k'"
  by (auto simp: check_property_def update_conv' split: option.splits)

lemma errors_check_property:
  "snd (check_property rt k t kvs) = [] \<longleftrightarrow> field_ok rt kvs (k, t)"
  by (auto simp: check_property_def coercible_def field_ok_def split: option.splits)

lemma errors_check_properties:
  "distinct (map fst ps) \<Longrightarrow> snd (check_properties rt ps kvs) = [] \<longleftrightarrow> types_ok rt ps kvs"
proof (induction ps arbitrary: kvs)
  case Nil
  then show ?case by (simp add: types_ok_def)
next
  case (Cons p ps)
  obtain k t where p: "p = (k, t)" by (cases p)
  let ?kvs1 = "fst (check_property rt k t kvs)"
  from Cons.prems p have d: "distinct (map fst ps)" and nk: "k \<notin> fst ` set ps" by auto
  have same: "types_ok rt ps ?kvs1 = types_ok rt ps kvs"
    unfolding types_ok_def list_all_iff
  proof (intro ball_cong refl)
    fix q assume "q \<in> set ps"
    then have "fst q \<noteq> k" using nk by force
    then show "field_ok rt ?kvs1 q = field_ok rt kvs q"
      by (simp add: field_ok_def other_key_check_property)
  qed
  have "snd (check_properties rt (p # ps) kvs) = [] \<longleftrightarrow>
        snd (check_property rt k t kvs) = [] \<and> snd (check_properties rt ps ?kvs1) = []"
    by (simp add: p split: prod.splits)
  also have "\<dots> \<longleftrightarrow> field_ok rt kvs (k, t) \<and> types_ok rt ps kvs"
    by (simp add: errors_check_property Cons.IH[OF d] same)
  also have "\<dots> \<longleftrightarrow> types_ok rt (p # ps) kvs"
    by (simp add: types_ok_def p)
  finally show ?case .
qed

lemma required_errors_mem:
  "required s = Some rs \<Longrightarrow> r \<in> set rs \<Longrightarrow> map_of kvs r = None \<Longrightarrow>
   \<lparr>keyword = ''required'', instancePath = '''',
     message = ''must have required property '' @ [CHR 0x27] @ r @ [CHR 0x27]\<rparr>
     \<in> set (required_errors s kvs)"
  by (simp add: required_errors_def)

lemma additional_errors_mem:
  "\<not> additionalProperties s \<Longrightarrow> k \<in> fst ` set kvs \<Longrightarrow> k \<notin> fst ` set (properties s) \<Longrightarrow>
   \<lparr>keyword = ''additionalProperties'', instancePath = '''',
     message = ''must NOT have additional properties''\<rparr> \<in> set (additional_errors s kvs)"
  by (auto simp: additional_errors_def)

lemma additional_errors_empty:
  "\<not> additionalProperties s \<Longrightarrow> additional_errors s kvs = [] \<longleftrightarrow> closed_ok (properties s) kvs"
  by (auto simp: additional_errors_def filter_empty_conv closed_ok_def list_all_iff)

lemma gate_rejects_with:
  assumes "e \<in> set (required_errors s kvs @ additional_errors s kvs
                     @ snd (check_properties rt (properties s) kvs))"
  shows "\<exists>b err. validating_gate rt (ajv_validate rt s) (JObj kvs) = (b, NextErr err)
           \<and> err_status err = Some 422 \<and> sublist (message e) (err_message err)"
proof -
  let ?errs = "required_errors s kvs @ additional_errors s kvs
                 @ snd (check_properties rt (properties s) kvs)"
  have ne: "\<not> (required_errors s kvs = [] \<and> additional_errors s kvs = []
          \<and> snd (check_properties rt (properties s) kvs) = [])" using assms by auto
  have "sublist (message e) (errorsText ?errs)" using assms by (rule sublist_errorsText)
  then show ?thesis
    using ne by (simp only: gate_on_object if_not_P) (simp add: createError_def)
qed

lemma strict_gate_requires:
  assumes "cells h 0 = todo_schema" and "mode \<noteq> ''partial''"
    and "r \<in> {''task'', ''priority'', ''assigned_to'', ''is_complete''}"
    and "map_of kvs r = None"
  shows "\<exists>b err. snd (getSchemaValidator rt h ''todo'' mode) (JObj kvs) = (b, NextErr err)
           \<and> err_status err = Some 422
           \<and> sublist (''must have required property '' @ [CHR 0x27] @ r @ [CHR 0x27])
                (err_message err)"
proof -
  let ?s = "compiled_schema h mode"
  have s: "?s = todo_schema" using assms(1,2) by (simp add: compiled_schema_def)
  have "required ?s = Some [''task'', ''priority'', ''assigned_to'', ''is_complete'']"
    by (simp add: s todo_schema_def)
  moreover have "r \<in> set [''task'', ''priority'', ''assigned_to'', ''is_complete'']"
    using assms(3) by simp
  ultimately have "\<lparr>keyword = ''required'', instancePath = '''',
     message = ''must have required property '' @ [CHR 0x27] @ r @ [CHR 0x27]\<rparr>
     \<in> set (required_errors ?s kvs)" using assms(4) by (rule required_errors_mem)
  then have "\<lparr>keyword = ''required'', instancePath = '''',
     message = ''must have required property '' @ [CHR 0x27] @ r @ [CHR 0x27]\<rparr>
     \<in> set (required_errors ?s kvs @ additional_errors ?s kvs
                     @ snd (check_properties rt (properties ?s) kvs))" by simp
  from gate_rejects_with[OF this] show ?thesis
    by (simp add: getSchemaValidator_todo)
qed

lemma partial_gate_accepts_iff:
  assumes "cells h 0 = todo_schema"
  shows "snd (snd (getSchemaValidator rt h ''todo'' ''partial'') (JObj kvs)) = Next \<longleftrightarrow>
           closed_ok (properties todo_schema) kvs \<and> types_ok rt (properties todo_schema) kvs"
proof -
  let ?s = "compiled_schema h ''partial''"
  have s: "?s = todo_schema\<lparr>required := None\<rparr>" using assms by (simp add: compiled_schema_def)
  have r: "required_errors ?s kvs = []" by (simp add: s required_errors_def)
  have p: "properties ?s = properties todo_schema" and ap: "\<not> additionalProperties ?s"
    by (simp_all add: s todo_schema_def)
  have d: "distinct (map fst (properties todo_schema))" by (simp add: todo_schema_def)
  show ?thesis
    by (simp add: getSchemaValidator_todo gate_on_object r additional_errors_empty[OF ap]
        p errors_check_properties[OF d])
qed

lemma keys_check_property:
  "map fst (fst (check_property rt k t kvs)) = map fst kvs"
proof (cases "map_of kvs k")
  case None
  then show ?thesis by (simp add: check_property_def)
next
  case (Some v)
  then have "k \<in> set (map fst kvs)" by (metis map_of_eq_None_iff option.distinct(1) set_map)
  then show ?thesis
    by (simp add: check_property_def Some update_keys split: option.splits)
qed

lemma fst_check_properties_Cons:
  "fst (check_properties rt ((k, t) # ps) kvs)
     = fst (check_properties rt ps (fst (check_property rt k t kvs)))"
  by (simp split: prod.splits)

lemma keys_check_properties:
  "map fst (fst (check_properties rt ps kvs)) = map fst kvs"
proof (induction ps arbitrary: kvs)
  case Nil
  then show ?case by simp
next
  case (Cons p ps)
  obtain k t where p: "p = (k, t)" by (cases p)
  show ?case
    unfolding p fst_check_properties_Cons by (simp add: Cons.IH keys_check_property)
qed

lemma value_check_property:
  "map_of (fst (check_property rt k t kvs)) k =
     map_option (\<lambda>v. if has_type rt t v then v
                      else (case coerce rt t v of Some v' \<Rightarrow> v' | None \<Rightarrow> v)) (map_of kvs k)"
  by (auto simp: check_property_def update_conv' split: option.splits)

lemma values_check_properties:
  "distinct (map fst ps) \<Longrightarrow>
   map_of (fst (check_properties rt ps kvs)) k = map_option (coerced_value rt ps k) (map_of kvs k)"
proof (induction ps arbitrary: kvs)
  case Nil
  then show ?case by (simp add: coerced_value_def option.map_ident[unfolded id_def])
next
  case (Cons p ps)
  obtain k0 t0 where p: "p = (k0, t0)" by (cases p)
  let ?kvs1 = "fst (check_property rt k0 t0 kvs)"
  from Cons.prems p have d: "distinct (map fst ps)" and nk: "k0 \<notin> fst ` set ps" by auto
  have step: "fst (check_properties rt ((k0, t0) # ps) kvs) = fst (check_properties rt ps ?kvs1)"
    by (rule fst_check_properties_Cons)
  have ih: "map_of (fst (check_properties rt ps ?kvs1)) k
              = map_option (coerced_value rt ps k) (map_of ?kvs1 k)"
    by (rule Cons.IH[OF d])
  show ?case
  proof (cases "k = k0")
    case True
    have "map_of ps k0 = None" using nk by (simp add: map_of_eq_None_iff)
    then have "coerced_value rt ps k0 = (\<lambda>v. v)" by (simp add: coerced_value_def fun_eq_iff)
    then show ?thesis
      using ih unfolding p step True
      by (simp add: value_check_property coerced_value_def option.map_ident[unfolded id_def])
  next
    case False
    then have "coerced_value rt ((k0, t0) # ps) k = coerced_value rt ps k"
      by (simp add: coerced_value_def fun_eq_iff)
    then show ?thesis
      using ih False unfolding p step by (simp add: other_key_check_property)
  qed
qed

lemma gsv_frame:
  "a < next_addr h \<Longrightarrow> cells (fst (getSchemaValidator rt h name mode)) a = cells h a"
  by (simp add: getSchemaValidator_def schema_def json_clone_def delete_required_def Let_def)

lemma gsv_next_addr:
  "next_addr h \<le> next_addr (fst (getSchemaValidator rt h name mode))"
  by (simp add: getSchemaValidator_def schema_def json_clone_def delete_required_def Let_def)

lemma compile_all_frame:
  "a < next_addr h \<Longrightarrow> cells (compile_all rt h cs) a = cells h a"
proof (induction cs arbitrary: h)
  case Nil
  then show ?case by simp
next
  case (Cons c cs)
  obtain name mode where c: "c = (name, mode)" by (cases c)
  let ?h1 = "fst (getSchemaValidator rt h name mode)"
  have "a < next_addr ?h1" using Cons.prems gsv_next_addr[of h rt name mode] by simp
  then have "cells (compile_all rt ?h1 cs) a = cells ?h1 a" by (rule Cons.IH)
  also have "\<dots> = cells h a" using Cons.prems by (rule gsv_frame)
  finally show ?case by (simp add: c)
qed

lemma partial_gate_rejects_example:
  "snd (snd (getSchemaValidator int_runtime initial_heap ''todo'' ''partial'')
        (JObj [(''is_complete'', JStr ''true''), (''whoops'', JNum 1)])) \<noteq> Next"
    by (simp add: getSchemaValidator_todo gate_on_object compiled_schema_def
      initial_heap_def todo_schema_def required_errors_def additional_errors_def)

section \<open>Properties of validation\<close>

text \<open>
  C1. A body object with a property outside \<^verbatim>\<open>task\<close>, \<^verbatim>\<open>priority\<close>, \<^verbatim>\<open>assigned_to\<close>,
  \<^verbatim>\<open>is_complete\<close> is rejected by the gate of every mode with a 422 error whose message
  contains \<^verbatim>\<open>must NOT have additional properties\<close>; the schema compiled in partial mode is
  the todo schema without \<^verbatim>\<open>required\<close>, with \<^verbatim>\<open>additionalProperties: false\<close> still in it.
\<close>

theorem additional_property_rejected:
  assumes "cells h 0 = todo_schema"
    and "k \<in> fst ` set kvs"
    and "k \<notin> {''task'', ''priority'', ''assigned_to'', ''is_complete''}"
  shows "(\<exists>b err. snd (getSchemaValidator rt h ''todo'' mode) (JObj kvs) = (b, NextErr err)
            \<and> err_status err = Some 422
            \<and> sublist ''must NOT have additional properties'' (err_message err))
         \<and> compiled_schema h ''partial'' = todo_schema\<lparr>required := None\<rparr>
         \<and> additionalProperties (compiled_schema h ''partial'') = False"
proof -
  let ?s = "compiled_schema h mode"
  have ap: "\<not> additionalProperties ?s" and props: "properties ?s = properties todo_schema"
    using assms(1) by (simp_all add: compiled_schema_def todo_schema_def)
  have "k \<notin> fst ` set (properties ?s)" using assms(3) by (simp add: props todo_schema_def)
  from additional_errors_mem[OF ap assms(2) this]
  have "\<lparr>keyword = ''additionalProperties'', instancePath = '''',
     message = ''must NOT have additional properties''\<rparr>
       \<in> set (required_errors ?s kvs @ additional_errors ?s kvs
                     @ snd (check_properties rt (properties ?s) kvs))" by simp
  from gate_rejects_with[OF this] show ?thesis
    using assms(1) by (simp add: getSchemaValidator_todo compiled_schema_def todo_schema_def)
qed

theorem additional_property_rejected_witness:
  "(\<exists>b err. snd (getSchemaValidator int_runtime initial_heap ''todo'' ''partial'')
               (JObj [(''is_complete'', JBool True), (''whoops'', JNum 1)]) = (b, NextErr err)
            \<and> err_status err = Some 422
            \<and> sublist ''must NOT have additional properties'' (err_message err))
   \<and> compiled_schema initial_heap ''partial'' = todo_schema\<lparr>required := None\<rparr>
   \<and> additionalProperties (compiled_schema initial_heap ''partial'') = False"
proof -
  have h: "cells initial_heap 0 = todo_schema" by (simp add: initial_heap_def)
  have k: "''whoops'' \<in> fst ` set [(''is_complete'', JBool True), (''whoops'', JNum (1::int))]"
    by simp
  have nk: "''whoops'' \<notin> {''task'', ''priority'', ''assigned_to'', ''is_complete''}"
    by simp
  show ?thesis
    using additional_property_rejected[OF h k nk, of int_runtime "''partial''"] by blast
qed

text \<open>
  C4. In any mode other than \<^verbatim>\<open>partial\<close>, a body object lacking a required property is
  rejected with a 422 error whose message names that property. The partial gate accepts
  a body object exactly when it has no undeclared property and every declared property
  it carries is of its type or coercible: absent properties play no part.
\<close>

theorem required_fields_by_mode:
  assumes "cells h 0 = todo_schema"
  shows "(mode \<noteq> ''partial'' \<and> r \<in> {''task'', ''priority'', ''assigned_to'', ''is_complete''}
            \<and> map_of kvs r = None \<longrightarrow>
          (\<exists>b err. snd (getSchemaValidator rt h ''todo'' mode) (JObj kvs) = (b, NextErr err)
             \<and> err_status err = Some 422
             \<and> sublist (''must have required property '' @ [CHR 0x27] @ r @ [CHR 0x27])
                  (err_message err)))
       \<and> (snd (snd (getSchemaValidator rt h ''todo'' ''partial'') (JObj kvs)) = Next \<longleftrightarrow>
            closed_ok (properties todo_schema) kvs \<and> types_ok rt (properties todo_schema) kvs)"
  using strict_gate_requires[OF assms] partial_gate_accepts_iff[OF assms] by blast

theorem required_fields_by_mode_witness:
  "(\<exists>b err. snd (getSchemaValidator int_runtime initial_heap ''todo'' ''strict'')
        (JObj [(''task'', JStr ''Only task'')]) = (b, NextErr err)
      \<and> err_status err = Some 422
      \<and> sublist (''must have required property '' @ [CHR 0x27] @ ''priority'' @ [CHR 0x27])
           (err_message err))
   \<and> snd (snd (getSchemaValidator int_runtime initial_heap ''todo'' ''partial'')
        (JObj [(''task'', JStr ''Only task'')])) = Next"
proof -
  have h: "cells initial_heap 0 = todo_schema" by (simp add: initial_heap_def)
  have ok: "closed_ok (properties todo_schema) [(''task'', JStr ''Only task'' :: int jsval)]
      \<and> types_ok int_runtime (properties todo_schema) [(''task'', JStr ''Only task'')]"
    by (simp add: closed_ok_def types_ok_def field_ok_def coercible_def todo_schema_def)
  show ?thesis
    using required_fields_by_mode[OF h, of "''strict''" "''priority''"
        "[(''task'', JStr ''Only task'')]" int_runtime] ok
    by simp
qed

text \<open>
  C3. After any sequence of compilations, in any modes and for any names, every
  object that existed before (the registry's schema among them) has its contents
  unchanged; a compilation afterwards reads the full schema, and in a mode other than
  \<^verbatim>\<open>partial\<close> its gate still rejects a body lacking a required property. Calls to
  \<^verbatim>\<open>getSchemaValidator\<close> are synchronous, so concurrent requests see them in some sequence.
\<close>

theorem registry_never_mutated:
  assumes "0 < next_addr h" and "cells h 0 = todo_schema"
  shows "(\<forall>a < next_addr h. cells (compile_all rt h cs) a = cells h a)
       \<and> compiled_schema (compile_all rt h cs) mode
           = (if mode = ''partial'' then todo_schema\<lparr>required := None\<rparr> else todo_schema)
       \<and> (mode \<noteq> ''partial'' \<and> r \<in> {''task'', ''priority'', ''assigned_to'', ''is_complete''}
            \<and> map_of kvs r = None \<longrightarrow>
          (\<exists>b err. snd (getSchemaValidator rt (compile_all rt h cs) ''todo'' mode) (JObj kvs)
                     = (b, NextErr err)
             \<and> err_status err = Some 422
             \<and> sublist (''must have required property '' @ [CHR 0x27] @ r @ [CHR 0x27])
                  (err_message err)))"
proof -
  have frame: "\<forall>a < next_addr h. cells (compile_all rt h cs) a = cells h a"
    by (simp add: compile_all_frame)
  then have reg: "cells (compile_all rt h cs) 0 = todo_schema" using assms by simp
  have comp: "compiled_schema (compile_all rt h cs) mode
           = (if mode = ''partial'' then todo_schema\<lparr>required := None\<rparr> else todo_schema)"
    by (simp add: compiled_schema_def reg)
  show ?thesis
    using frame comp strict_gate_requires[OF reg] by blast
qed

theorem registry_never_mutated_witness:
  "0 < next_addr initial_heap \<and> cells initial_heap 0 = todo_schema
   \<and> cells (compile_all int_runtime initial_heap
        [(''todo'', ''partial''), (''todo'', ''strict''), (''todo'', ''partial'')]) 0 = todo_schema
   \<and> (\<exists>b err. snd (getSchemaValidator int_runtime
          (compile_all int_runtime initial_heap
             [(''todo'', ''partial''), (''todo'', ''strict''), (''todo'', ''partial'')])
          ''todo'' ''strict'') (JObj [(''task'', JStr ''Only task'')]) = (b, NextErr err)
        \<and> err_status err = Some 422
        \<and> sublist (''must have required property '' @ [CHR 0x27] @ ''priority'' @ [CHR 0x27])
             (err_message err))"
proof -
  have h: "0 < next_addr initial_heap" "cells initial_heap 0 = todo_schema"
    by (simp_all add: initial_heap_def)
  show ?thesis
    using h registry_never_mutated[OF h, of int_runtime
        "[(''todo'', ''partial''), (''todo'', ''strict''), (''todo'', ''partial'')]"
        "''strict''" "''priority''" "[(''task'', JStr ''Only task'')]"]
    by simp
qed

text \<open>
  C2, as stated, fails: the partial gate rejects the body
  \<^verbatim>\<open>{is_complete: "true", whoops: 1}\<close> with 422 and leaves \<^verbatim>\<open>is_complete\<close> coerced to
  \<^verbatim>\<open>true\<close> in it.
\<close>

theorem failed_validation_keeps_coercions_counterexample:
  "update_gate (load_routes int_runtime)
       (JObj [(''is_complete'', JStr ''true''), (''whoops'', JNum 1)])
     = (JObj [(''is_complete'', JBool True), (''whoops'', JNum 1)],
        NextErr (createError int_runtime 422 ''data must NOT have additional properties''))"
  by (simp add: load_routes_def getSchemaValidator_todo gate_on_object compiled_schema_def
      initial_heap_def todo_schema_def required_errors_def additional_errors_def
      check_property_def errorsText_def)

text \<open>
  C2, amended. The gate validates the request body itself. Whether validation
  succeeds or fails, the body it leaves has the same properties in the same order, each
  holding its coerced value when it is declared, of the wrong type and coercible, and
  its own value otherwise; a body that is not an object is left as it is.
\<close>

theorem gate_coerces_in_place:
  assumes "cells h 0 = todo_schema"
    and "snd (getSchemaValidator rt h ''todo'' mode) body = (body', st)"
  shows "case body of
           JObj kvs \<Rightarrow>
             (\<exists>kvs'. body' = JObj kvs' \<and> map fst kvs' = map fst kvs
                \<and> (\<forall>k. map_of kvs' k
                      = map_option (coerced_value rt (properties todo_schema) k) (map_of kvs k)))
         | _ \<Rightarrow> body' = body"
proof (cases "\<exists>kvs. body = JObj kvs")
  case True
  then obtain kvs where b: "body = JObj kvs" by blast
  have p: "properties (compiled_schema h mode) = properties todo_schema"
    using assms(1) by (simp add: compiled_schema_def)
  have d: "distinct (map fst (properties todo_schema))" by (simp add: todo_schema_def)
  have "body' = JObj (fst (check_properties rt (properties todo_schema) kvs))"
    using assms(2) by (simp add: b getSchemaValidator_todo gate_on_object p)
  then show ?thesis
    by (simp add: b keys_check_properties values_check_properties[OF d])
next
  case False
  then have "\<And>kvs. body \<noteq> JObj kvs" by blast
  from gate_on_non_object[OF this] have "body' = body"
    using assms(2) by (simp add: getSchemaValidator_todo)
  then show ?thesis using False by (cases body) simp_all
qed

theorem gate_coerces_in_place_witness:
  "cells initial_heap 0 = todo_schema
   \<and> snd (snd (getSchemaValidator int_runtime initial_heap ''todo'' ''partial'')
        (JObj [(''is_complete'', JStr ''true''), (''whoops'', JNum 1)])) \<noteq> Next
   \<and> (\<exists>kvs'. fst (snd (getSchemaValidator int_runtime initial_heap ''todo'' ''partial'')
                 (JObj [(''is_complete'', JStr ''true''), (''whoops'', JNum 1)])) = JObj kvs'
         \<and> map fst kvs' = [''is_complete'', ''whoops'']
         \<and> map_of kvs' ''is_complete'' = Some (JBool True))"
proof -
  let ?g = "snd (getSchemaValidator int_runtime initial_heap ''todo'' ''partial'')"
  let ?kvs = "[(''is_complete'', JStr ''true''), (''whoops'', JNum 1)] :: (string \<times> int jsval) list"
  have h: "cells initial_heap 0 = todo_schema" by (simp add: initial_heap_def)
  have r: "?g (JObj ?kvs) = (fst (?g (JObj ?kvs)), snd (?g (JObj ?kvs)))" by simp
  have f: "snd (?g (JObj ?kvs)) \<noteq> Next" by (rule partial_gate_rejects_example)
  from gate_coerces_in_place[OF h r]
  have "\<exists>kvs'. fst (?g (JObj ?kvs)) = JObj kvs' \<and> map fst kvs' = map fst ?kvs
          \<and> (\<forall>k. map_of kvs' k
                = map_option (coerced_value int_runtime (properties todo_schema) k) (map_of ?kvs k))"
    by (simp only: jsval.case)
  then obtain kvs' where k: "fst (?g (JObj ?kvs)) = JObj kvs'" and ks: "map fst kvs' = map fst ?kvs"
    and v: "\<forall>k. map_of kvs' k = map_option (coerced_value int_runtime (properties todo_schema) k)
               (map_of ?kvs k)"
    by (elim exE conjE)
  from ks have ks': "map fst kvs' = [''is_complete'', ''whoops'']" by simp
  from v have "map_of kvs' ''is_complete''
      = map_option (coerced_value int_runtime (properties todo_schema) ''is_complete'')
               (map_of ?kvs ''is_complete'')" by (rule spec)
  then have v': "map_of kvs' ''is_complete'' = Some (JBool True)"
    by (simp add: coerced_value_def todo_schema_def)
  have "\<exists>kvs'. fst (?g (JObj ?kvs)) = JObj kvs'
         \<and> map fst kvs' = [''is_complete'', ''whoops'']
         \<and> map_of kvs' ''is_complete'' = Some (JBool True)"
    using k ks' v' by (intro exI[of _ kvs'] conjI)
  with h f show ?thesis by (intro conjI)
qed

section \<open>Facts about the request pipeline\<close>

lemma error_handler_ignores_user_and_body:
  "error_handler cfg e (req\<lparr>req_user := u\<rparr>) = error_handler cfg e req"
  "error_handler cfg e (req\<lparr>req_body := b\<rparr>) = error_handler cfg e req"
  by (simp_all add: error_handler_def getErrorTemplateParams_def)

lemma load_routes_gates:
  "create_gate (load_routes rt) = validating_gate rt (ajv_validate rt todo_schema)"
  "update_gate (load_routes rt) = validating_gate rt (ajv_validate rt (todo_schema\<lparr>required := None\<rparr>))"
  by (simp_all add: load_routes_def getSchemaValidator_todo compiled_schema_def initial_heap_def)

lemma run_stack_param_invalid:
  "\<not> oid_is_valid rt i \<Longrightarrow>
   run_stack (param_mw rt i # ms) db req =
     (db, req, Respond \<lparr>res_status = 400,
                 res_body = JsonValue (JObj [(''error'', JStr ''Invalid ObjectId'')])\<rparr>, [ParamCheck])"
  by (simp add: param_mw_def validateObjectIdParamHandler_def)

lemma run_stack_param_valid:
  "oid_is_valid rt i \<Longrightarrow>
   run_stack (param_mw rt i # ms) db req =
     (case run_stack ms db req of (db2, req2, st, tr) \<Rightarrow> (db2, req2, st, ParamCheck # tr))"
  by (simp add: param_mw_def validateObjectIdParamHandler_def)

lemma run_stack_auth:
  "run_stack (auth_mw # ms) db req =
     (case run_stack ms db (req\<lparr>req_user := Some stub_user\<rparr>) of
        (db2, req2, st, tr) \<Rightarrow> (db2, req2, st, Authenticate # tr))"
  by (simp add: auth_mw_def authenticate_user_def)

lemma id_route_stack:
  assumes "req_route req \<in> {GetTodo i, UpdateTodo i, DeleteTodo i}"
  shows "\<exists>ms. route_stack rt cfg ap inp (req_route req) = param_mw rt i # auth_mw # ms"
  using assms by (auto simp: route_stack_def)

lemma run_stack_validator_pass:
  "g (req_body req) = (b, Next) \<Longrightarrow>
   run_stack (validator_mw g # ms) db req =
     (case run_stack ms db (req\<lparr>req_body := b\<rparr>) of
        (db2, req2, st, tr) \<Rightarrow> (db2, req2, st, Validator # tr))"
  by (simp add: validator_mw_def)


lemma updateOne_unchanged:
  assumes "updateOne s oid upd = Inr (result, s')"
    and "find (has_id (ObjectIdValue oid)) (docs s) = Some d"
    and "set_fields d upd = d"
  shows "matchedCount result = 1 \<and> modifiedCount result = 0"
  using assms by (auto simp: updateOne_def Let_def split: option.splits)

lemma map_of_rev_distinct: "distinct (map fst xs) \<Longrightarrow> map_of (rev xs) = map_of xs"
proof (induction xs)
  case Nil
  then show ?case by simp
next
  case (Cons x xs)
  then have ih: "map_of (rev xs) = map_of xs" and nx: "map_of xs (fst x) = None"
    by (simp_all add: map_of_eq_None_iff)
  show ?case
  proof
    fix k
    show "map_of (rev (x # xs)) k = map_of (x # xs) k"
      using ih nx by (cases x) (auto simp: map_add_def split: option.splits)
  qed
qed

lemma map_of_set_fields: "map_of (set_fields d upd) = map_of d ++ map_of (rev upd)"
  unfolding set_fields_def
proof (induction upd arbitrary: d)
  case Nil
  then show ?case by simp
next
  case (Cons p upd)
  obtain k v where p: "p = (k, v)" by (cases p)
  have "map_of (foldl (\<lambda>acc (k, v). AList.update k v acc) (AList.update k v d) upd)
          = map_of (AList.update k v d) ++ map_of (rev upd)" by (rule Cons.IH)
  also have "\<dots> = map_of d ++ map_of (rev upd @ [(k, v)])"
    by (simp add: update_conv' map_add_def fun_eq_iff split: option.splits)
  finally show ?case by (simp add: p)
qed

lemma map_of_plain:
  "map_of (map (\<lambda>(k, v). (k, Plain v)) kvs) k = map_option Plain (map_of kvs k)"
  by (induction kvs) auto

lemma keys_plain: "map fst (map (\<lambda>(k, v). (k, Plain v)) kvs) = map fst kvs"
  by (induction kvs) auto

lemma create_gate_pass:
  assumes "create_gate (load_routes rt) (JObj kvs) = (body', Next)"
  shows "closed_ok (properties todo_schema) kvs
       \<and> body' = JObj (fst (check_properties rt (properties todo_schema) kvs))"
proof -
  have ap: "\<not> additionalProperties todo_schema" by (simp add: todo_schema_def)
  from assms have "additional_errors todo_schema kvs = []"
    and "body' = JObj (fst (check_properties rt (properties todo_schema) kvs))"
    by (simp_all add: load_routes_gates gate_on_object split: if_splits)
  then show ?thesis by (simp add: additional_errors_empty[OF ap])
qed

lemma find_appended:
  "\<not> list_ex P xs \<Longrightarrow> P y \<Longrightarrow> find P (xs @ [y]) = Some y"
  by (induction xs) auto

lemma create_on_clean_fields:
  assumes "fault s = None"
    and "\<not> list_ex (has_id (ObjectIdValue oid)) (docs s)"
    and "''_id'' \<notin> set (map fst kvs)" and "''date_created'' \<notin> set (map fst kvs)"
    and "distinct (map fst kvs)"
  shows "\<exists>doc stored.
           create rt t oid (Some s) (JObj kvs) = Inr (doc, s\<lparr>docs := docs s @ [stored]\<rparr>)
         \<and> has_id (ObjectIdValue oid) stored
         \<and> map_of stored = map_of doc
         \<and> map_of doc = (map_of (map (\<lambda>(k, v). (k, Plain v)) kvs))
               (''date_created'' \<mapsto> DateValue t, ''_id'' \<mapsto> ObjectIdValue oid)"
proof -
  let ?plain = "map (\<lambda>(k, v). (k, Plain v)) kvs :: (string \<times> 'a field_value) list"
  let ?todo = "AList.update ''date_created'' (DateValue t) ?plain"
  let ?idv = "ObjectIdValue oid :: 'a field_value"
  let ?doc = "set_fields [(''_id'', ?idv)] (AList.update ''_id'' ?idv ?todo)"
  let ?stored = "(''_id'', ?idv) # AList.delete ''_id'' ?todo"
  have "map_of kvs ''_id'' = None" using assms(3) by (simp add: map_of_eq_None_iff)
  then have no_id: "map_of ?todo ''_id'' = None"
    by (simp add: update_conv' map_of_plain)
  have d: "distinct (map fst (AList.update ''_id'' ?idv ?todo))"
    using assms(5) by (intro distinct_update) (simp only: keys_plain)
  have c: "create rt t oid (Some s) (JObj kvs) = Inr (?doc, s\<lparr>docs := docs s @ [?stored]\<rparr>)"
    using assms(1,2) no_id by (simp add: create_def collection_def insertOne_def Let_def)
  have m1: "map_of ?doc = (map_of ?plain)(''date_created'' \<mapsto> DateValue t, ''_id'' \<mapsto> ?idv)"
    by (auto simp add: map_of_set_fields map_of_rev_distinct[OF d] update_conv' map_add_def
        fun_eq_iff split: option.splits)
  have m2: "map_of ?stored = (map_of ?plain)(''date_created'' \<mapsto> DateValue t, ''_id'' \<mapsto> ?idv)"
    by (simp add: delete_conv' update_conv')
  have h: "has_id ?idv ?stored" by (simp add: has_id_def)
  show ?thesis using c h m1 m2 by (intro exI[of _ ?doc] exI[of _ ?stored]) simp
qed

lemma closed_ok_keys:
  "closed_ok (properties todo_schema) kvs \<Longrightarrow>
     ''_id'' \<notin> set (map fst kvs) \<and> ''date_created'' \<notin> set (map fst kvs)"
  by (auto simp: closed_ok_def list_all_iff todo_schema_def)
















lemma sample_oid_valid:
  "oid_is_valid int_runtime sample_oid"
  "castObjectId int_runtime sample_oid = Inr sample_oid"
  by (simp_all add: int_runtime_def sample_oid_def is_hex_def castObjectId_def lower_hex_def)

lemma short_id_invalid: "\<not> oid_is_valid int_runtime ''abc''"
  by (simp add: int_runtime_def)




lemma repeat_update_gate_example:
  "update_gate (load_routes int_runtime) (JObj [(''is_complete'', JBool True)])
     = (JObj [(''is_complete'', JBool True)], Next)"
  by (simp add: load_routes_gates gate_on_object required_errors_def additional_errors_def
      todo_schema_def check_property_def)

lemma repeat_updateOne_example:
  "updateOne seeded_store sample_oid (map (\<lambda>(k, v). (k, Plain v)) [(''is_complete'', JBool True)])
     = Inr (\<lparr>matchedCount = 1, modifiedCount = 0\<rparr>, seeded_store)"
  by (simp add: updateOne_def seeded_store_def seeded_doc_def has_id_def set_fields_def)

lemma loose_gate_example:
  "create_gate (load_routes int_runtime) (JObj loose_fields)
     = (JObj [(''task'', JStr ''x''), (''priority'', JNum 1), (''assigned_to'', JStr ''a''),
              (''is_complete'', JBool False)], Next)"
  by (simp add: load_routes_gates gate_on_object required_errors_def additional_errors_def
      todo_schema_def check_property_def loose_fields_def int_runtime_def)

lemma loose_create_example:
  "create int_runtime 1700000000 sample_oid (Some empty_store)
     (JObj [(''task'', JStr ''x''), (''priority'', JNum 1), (''assigned_to'', JStr ''a''),
            (''is_complete'', JBool False)])
   = Inr (loose_doc, \<lparr>fault = None, docs = [loose_doc]\<rparr>)"
  by (simp add: create_def collection_def insertOne_def empty_store_def loose_doc_def
      set_fields_def Let_def)

lemma loose_post_example:
  "handle_request int_runtime test_config (load_routes int_runtime) test_inputs
     (Some empty_store) (json_request CreateTodo ''POST'' ''/v1/todo'' (JObj loose_fields))
   = (\<lparr>res_status = 201, res_body = JsonDoc loose_doc\<rparr>,
      Some \<lparr>fault = None, docs = [loose_doc]\<rparr>, [Authenticate, Validator, Handler])"
proof -
  let ?req = "json_request CreateTodo ''POST'' ''/v1/todo'' (JObj loose_fields)"
  have g: "create_gate (load_routes int_runtime) (req_body (?req\<lparr>req_user := Some stub_user\<rparr>))
     = (JObj [(''task'', JStr ''x''), (''priority'', JNum 1), (''assigned_to'', JStr ''a''),
              (''is_complete'', JBool False)], Next)"
    using loose_gate_example by (simp add: json_request_def)
  have r: "req_route ?req = CreateTodo" by (simp add: json_request_def)
  show ?thesis
    by (simp add: handle_request_def r route_stack_def run_stack_auth
        run_stack_validator_pass[where g = "create_gate (load_routes int_runtime)"
          and req = "?req\<lparr>req_user := Some stub_user\<rparr>", OF g]
        post_handler_def test_inputs_def loose_create_example)
qed

lemma loose_get_example:
  "handle_request int_runtime test_config (load_routes int_runtime) test_inputs
     (Some \<lparr>fault = None, docs = [loose_doc]\<rparr>)
     (json_request (GetTodo sample_oid) ''GET'' ''/v1/todo/507f1f77bcf86cd799439011'' (JObj []))
   = (\<lparr>res_status = 200, res_body = JsonDoc loose_doc\<rparr>,
      Some \<lparr>fault = None, docs = [loose_doc]\<rparr>, [ParamCheck, Authenticate, Handler])"
proof -
  have g: "getById int_runtime (Some \<lparr>fault = None, docs = [loose_doc]\<rparr>) sample_oid
             = Inr (Some loose_doc)"
    by (simp add: getById_def collection_def sample_oid_valid findOne_def has_id_def loose_doc_def)
  show ?thesis
    by (simp add: handle_request_def route_stack_def json_request_def
      run_stack_param_valid[OF sample_oid_valid(1)] run_stack_auth get_handler_def g)
qed

lemma error_handler_json_body:
  "(err_status err = None \<longrightarrow> res_status (error_handler cfg err req) = 500)
   \<and> (accepts_json req \<longrightarrow>
        res_body (error_handler cfg err req)
          = JsonValue (JObj [(''error'', JObj
              ((''message'', JStr (err_message err))
               # (if app_env cfg = ''development'' then [(''stack'', JStr (err_stack err))]
                  else [])))]))
   \<and> (app_env cfg = ''development'' \<longleftrightarrow>
        node_env cfg = None \<or> node_env cfg = Some [] \<or> node_env cfg = Some ''development'')"
  by (simp add: error_handler_def status_or_500_def app_env_def or_default_def
      split: option.splits)


lemma changing_updateOne_example:
  "updateOne seeded_store sample_oid (map (\<lambda>(k, v). (k, Plain v)) [(''is_complete'', JBool False)])
     = Inr (\<lparr>matchedCount = 1, modifiedCount = 1\<rparr>,
            \<lparr>fault = None,
             docs = [[(''_id'', ObjectIdValue sample_oid), (''task'', Plain (JStr ''Seed task 1'')),
                      (''priority'', Plain (JNum 1)), (''assigned_to'', Plain (JStr ''alice'')),
                      (''is_complete'', Plain (JBool False)),
                      (''date_created'', DateValue 1699999999)]]\<rparr>)"
  by (simp add: updateOne_def seeded_store_def seeded_doc_def has_id_def set_fields_def)

lemma changing_update_gate_example:
  "update_gate (load_routes int_runtime) (JObj [(''is_complete'', JBool False)])
     = (JObj [(''is_complete'', JBool False)], Next)"
  by (simp add: load_routes_gates gate_on_object required_errors_def additional_errors_def
      todo_schema_def check_property_def)

lemma update_request_outcome:
  assumes "req_route req = UpdateTodo i"
    and "oid_is_valid rt i"
    and "update_gate (load_routes rt) (req_body req) = (JObj kvs, Next)"
    and "db = Some s"
    and "castObjectId rt i = Inr oid"
    and "updateOne s oid (map (\<lambda>(k, v). (k, Plain v)) kvs) = Inr (result, s')"
  shows "handle_request rt cfg (load_routes rt) inp db req =
     (if 0 < modifiedCount result
      then (sendStatus 204, Some s', [ParamCheck, Authenticate, Validator, Handler])
      else (error_handler cfg (createError rt 404 ''Todo not found or not modified'') req,
            Some s', [ParamCheck, Authenticate, Validator, Handler, ErrorHandler]))"
proof -
  let ?e = "createError rt 404 ''Todo not found or not modified''"
  have g: "update_gate (load_routes rt) (req_body (req\<lparr>req_user := Some stub_user\<rparr>))
             = (JObj kvs, Next)" using assms(3) by simp
  have u: "update rt db i (JObj kvs) = Inr (0 < modifiedCount result, s')"
    using assms(4,5,6) by (simp add: update_def collection_def)
  have run: "run_stack (route_stack rt cfg (load_routes rt) inp (req_route req)) db req =
      (Some s', req\<lparr>req_user := Some stub_user, req_body := JObj kvs\<rparr>,
       (if 0 < modifiedCount result then Respond (sendStatus 204) else NextErr ?e),
       [ParamCheck, Authenticate, Validator, Handler])"
    by (simp add: assms(1) route_stack_def run_stack_param_valid[OF assms(2)] run_stack_auth
        run_stack_validator_pass[where g = "update_gate (load_routes rt)"
          and req = "req\<lparr>req_user := Some stub_user\<rparr>", OF g] put_handler_def u)
  show ?thesis
    by (simp add: handle_request_def run error_handler_ignores_user_and_body)
qed

lemma test_config_env:
  "environment test_config = ''test''" "app_env test_config = ''test''"
  by (simp_all add: environment_def app_env_def or_default_def test_config_def)





section \<open>Properties of the request pipeline\<close>

text \<open>
  C5. An error without a status is answered with status 500 and, for a client that
  accepts JSON, with the body \<^verbatim>\<open>{error: {message, stack?}}\<close>. The stack is not confined to a
  development configuration: with \<^verbatim>\<open>NODE_ENV\<close> unset \<^verbatim>\<open>env.environment\<close> is \<^verbatim>\<open>production\<close>
  and the HTML page of the same handler carries no stack, yet the JSON body of the
  404 for an unknown path carries \<^verbatim>\<open>err.stack\<close>.
\<close>

theorem json_stack_in_production_default:
  "node_env default_config = None
   \<and> environment default_config = ''production''
   \<and> handle_request int_runtime default_config (load_routes int_runtime) test_inputs
       (Some empty_store) (json_request Unmatched ''GET'' ''/nope'' JNull)
     = (\<lparr>res_status = 404,
         res_body = JsonValue (JObj [(''error'', JObj [(''message'', JStr ''Not Found''),
                                                     (''stack'', JStr ''Error: Not Found'')])])\<rparr>,
        Some empty_store, [NotFoundHandler, ErrorHandler])
   \<and> handle_request int_runtime default_config (load_routes int_runtime) test_inputs
       (Some empty_store) (html_request Unmatched ''GET'' ''/nope'' JNull)
     = (\<lparr>res_status = 404,
         res_body = HtmlPage (getErrorTemplateParams default_config None
                      ''Your request is in error.'' (StackArray [])
                      (html_request Unmatched ''GET'' ''/nope'' JNull))\<rparr>,
        Some empty_store, [NotFoundHandler, ErrorHandler])
   \<and> tp_stack (getErrorTemplateParams default_config None
          ''Your request is in error.'' (StackArray [])
          (html_request Unmatched ''GET'' ''/nope'' JNull)) = StackArray []"
proof -
  have e: "environment default_config = ''production''"
    and a: "app_env default_config = ''development''"
    and n: "node_env default_config = None"
    by (simp_all add: environment_def app_env_def or_default_def default_config_def)
  have s: "stack_of int_runtime ''Not Found'' = ''Error: Not Found''"
    by (simp add: int_runtime_def)
  have j: "handle_request int_runtime default_config (load_routes int_runtime) test_inputs
       (Some empty_store) (json_request Unmatched ''GET'' ''/nope'' JNull)
     = (\<lparr>res_status = 404,
         res_body = JsonValue (JObj [(''error'', JObj [(''message'', JStr ''Not Found''),
                                                     (''stack'', JStr ''Error: Not Found'')])])\<rparr>,
        Some empty_store, [NotFoundHandler, ErrorHandler])"
    by (simp add: handle_request_def route_stack_def json_request_def error_handler_def a
        createError_def s status_or_500_def)
  have h: "handle_request int_runtime default_config (load_routes int_runtime) test_inputs
       (Some empty_store) (html_request Unmatched ''GET'' ''/nope'' JNull)
     = (\<lparr>res_status = 404,
         res_body = HtmlPage (getErrorTemplateParams default_config None
                      ''Your request is in error.'' (StackArray [])
                      (html_request Unmatched ''GET'' ''/nope'' JNull))\<rparr>,
        Some empty_store, [NotFoundHandler, ErrorHandler])"
    by (simp add: handle_request_def route_stack_def html_request_def error_handler_def e
        createError_def status_or_500_def)
  have t: "tp_stack (getErrorTemplateParams default_config None
          ''Your request is in error.'' (StackArray [])
          (html_request Unmatched ''GET'' ''/nope'' JNull)) = StackArray []"
    by (simp add: getErrorTemplateParams_def)
  from n e j h t show ?thesis by (intro conjI)
qed

text \<open>
  C10. The authentication stub attaches the fixed identity to every request and calls
  \<^verbatim>\<open>next()\<close>: it never responds and never forwards an error, and in any route stack it
  hands the request, with the identity attached, to the stages after it.
\<close>

theorem authenticate_user_always_proceeds:
  "authenticate_user req =
     (req\<lparr>req_user := Some (JObj [(''id'', JStr ''placeholder-user-id''),
                                    (''username'', JStr ''stub_user''),
                                    (''roles'', JArr [JStr ''user''])])\<rparr>, Next)
   \<and> (\<forall>resp. snd (authenticate_user req) \<noteq> Respond resp)
   \<and> (\<forall>err. snd (authenticate_user req) \<noteq> NextErr err)
   \<and> run_stack (auth_mw # ms) db req =
       (case run_stack ms db (fst (authenticate_user req)) of
          (db2, req2, st, tr) \<Rightarrow> (db2, req2, st, Authenticate # tr))"
proof -
  have a: "authenticate_user req =
     (req\<lparr>req_user := Some (JObj [(''id'', JStr ''placeholder-user-id''),
                                    (''username'', JStr ''stub_user''),
                                    (''roles'', JArr [JStr ''user''])])\<rparr>, Next)"
    by (simp add: authenticate_user_def stub_user_def)
  have b: "run_stack (auth_mw # ms) db req =
       (case run_stack ms db (fst (authenticate_user req)) of
          (db2, req2, st, tr) \<Rightarrow> (db2, req2, st, Authenticate # tr))"
    by (simp add: run_stack_auth authenticate_user_def)
  show ?thesis using a b by simp
qed

text \<open>
  C8. On the three routes with an \<^verbatim>\<open>:id\<close> parameter, an identifier that
  \<^verbatim>\<open>ObjectId.isValid\<close> rejects is answered 400 \<^verbatim>\<open>{error: "Invalid ObjectId"}\<close> by the parameter
  check alone, with the store untouched; the validator and the handler run only for an
  identifier it accepts, and then the check and the authentication stub have run first.
\<close>

theorem malformed_identifier_short_circuits:
  assumes "req_route req \<in> {GetTodo i, UpdateTodo i, DeleteTodo i}"
  shows "(\<not> oid_is_valid rt i \<longrightarrow>
            handle_request rt cfg ap inp db req =
              (\<lparr>res_status = 400,
                res_body = JsonValue (JObj [(''error'', JStr ''Invalid ObjectId'')])\<rparr>,
               db, [ParamCheck]))
       \<and> (Validator \<in> set (snd (snd (handle_request rt cfg ap inp db req)))
            \<or> Handler \<in> set (snd (snd (handle_request rt cfg ap inp db req)))
          \<longrightarrow> oid_is_valid rt i)
       \<and> (oid_is_valid rt i \<longrightarrow>
            take 2 (snd (snd (handle_request rt cfg ap inp db req))) = [ParamCheck, Authenticate])"
proof -
  from id_route_stack[OF assms]
  obtain ms where ms: "route_stack rt cfg ap inp (req_route req) = param_mw rt i # auth_mw # ms"
    by blast
  have bad: "handle_request rt cfg ap inp db req =
              (\<lparr>res_status = 400,
                res_body = JsonValue (JObj [(''error'', JStr ''Invalid ObjectId'')])\<rparr>,
               db, [ParamCheck])" if "\<not> oid_is_valid rt i"
    by (simp add: handle_request_def ms run_stack_param_invalid[OF that])
  have good: "take 2 (snd (snd (handle_request rt cfg ap inp db req))) = [ParamCheck, Authenticate]"
    if "oid_is_valid rt i"
    by (simp add: handle_request_def ms run_stack_param_valid[OF that] run_stack_auth
        split: prod.splits step.splits)
  show ?thesis using bad good by (cases "oid_is_valid rt i") simp_all
qed

theorem malformed_identifier_short_circuits_witness:
  "\<not> oid_is_valid int_runtime ''abc''
   \<and> handle_request int_runtime test_config (load_routes int_runtime) test_inputs
       (Some seeded_store) (json_request (UpdateTodo ''abc'') ''PUT'' ''/v1/todo/abc''
          (JObj [(''is_complete'', JBool True)]))
     = (\<lparr>res_status = 400, res_body = JsonValue (JObj [(''error'', JStr ''Invalid ObjectId'')])\<rparr>,
        Some seeded_store, [ParamCheck])
   \<and> oid_is_valid int_runtime sample_oid
   \<and> take 2 (snd (snd (handle_request int_runtime test_config (load_routes int_runtime)
       test_inputs (Some seeded_store) (json_request (UpdateTodo sample_oid) ''PUT''
          ''/v1/todo/507f1f77bcf86cd799439011'' (JObj [(''is_complete'', JBool True)])))))
     = [ParamCheck, Authenticate]"
proof -
  let ?b = "JObj [(''is_complete'', JBool True)] :: int jsval"
  let ?bad = "json_request (UpdateTodo ''abc'') ''PUT'' ''/v1/todo/abc'' ?b"
  let ?good = "json_request (UpdateTodo sample_oid) ''PUT'' ''/v1/todo/507f1f77bcf86cd799439011'' ?b"
  have r1: "req_route ?bad \<in> {GetTodo ''abc'', UpdateTodo ''abc'', DeleteTodo ''abc''}"
    by (simp add: json_request_def)
  have r2: "req_route ?good \<in> {GetTodo sample_oid, UpdateTodo sample_oid, DeleteTodo sample_oid}"
    by (simp add: json_request_def)
  note t1 = malformed_identifier_short_circuits[OF r1, of int_runtime test_config
      "load_routes int_runtime" test_inputs "Some seeded_store"]
  note t2 = malformed_identifier_short_circuits[OF r2, of int_runtime test_config
      "load_routes int_runtime" test_inputs "Some seeded_store"]
  have c1: "handle_request int_runtime test_config (load_routes int_runtime) test_inputs
       (Some seeded_store) ?bad
     = (\<lparr>res_status = 400, res_body = JsonValue (JObj [(''error'', JStr ''Invalid ObjectId'')])\<rparr>,
        Some seeded_store, [ParamCheck])"
    using t1[THEN conjunct1, THEN mp, OF short_id_invalid] .
  have c2: "take 2 (snd (snd (handle_request int_runtime test_config (load_routes int_runtime)
       test_inputs (Some seeded_store) ?good))) = [ParamCheck, Authenticate]"
    using t2[THEN conjunct2, THEN conjunct2, THEN mp, OF sample_oid_valid(1)] .
  from short_id_invalid c1 sample_oid_valid(1) c2 show ?thesis by (intro conjI)
qed

text \<open>
  C7, as stated, fails: for a client that does not accept JSON, outside development,
  an update that changes nothing is answered 404 with the page message
  \<^verbatim>\<open>Your request is in error.\<close>, not \<^verbatim>\<open>Todo not found or not modified\<close>.
\<close>

theorem html_update_hides_message_counterexample:
  "handle_request int_runtime test_config (load_routes int_runtime) test_inputs
     (Some seeded_store)
     (html_request (UpdateTodo sample_oid) ''PUT'' ''/v1/todo/507f1f77bcf86cd799439011''
        (JObj [(''is_complete'', JBool True)]))
   = (\<lparr>res_status = 404,
       res_body = HtmlPage (getErrorTemplateParams test_config None
          ''Your request is in error.'' (StackArray [])
          (html_request (UpdateTodo sample_oid) ''PUT'' ''/v1/todo/507f1f77bcf86cd799439011''
             (JObj [(''is_complete'', JBool True)])))\<rparr>,
      Some seeded_store, [ParamCheck, Authenticate, Validator, Handler, ErrorHandler])
   \<and> tp_message (getErrorTemplateParams test_config None
          ''Your request is in error.'' (StackArray [])
          (html_request (UpdateTodo sample_oid) ''PUT'' ''/v1/todo/507f1f77bcf86cd799439011''
             (JObj [(''is_complete'', JBool True)]))) = ''Your request is in error.''"
proof -
  let ?kvs = "[(''is_complete'', JBool True)] :: (string \<times> int jsval) list"
  let ?req = "html_request (UpdateTodo sample_oid) ''PUT'' ''/v1/todo/507f1f77bcf86cd799439011''
                (JObj ?kvs)"
  have r: "req_route ?req = UpdateTodo sample_oid" by (simp add: html_request_def)
  have g: "update_gate (load_routes int_runtime) (req_body ?req) = (JObj ?kvs, Next)"
    using repeat_update_gate_example by (simp add: html_request_def)
  have a: "\<not> accepts_json ?req" by (simp add: html_request_def)
  note out = update_request_outcome[OF r sample_oid_valid(1) g refl
      sample_oid_valid(2) repeat_updateOne_example, of test_config test_inputs]
  have e: "error_handler test_config
             (createError int_runtime 404 ''Todo not found or not modified'') ?req
        = \<lparr>res_status = 404,
           res_body = HtmlPage (getErrorTemplateParams test_config None
              ''Your request is in error.'' (StackArray []) ?req)\<rparr>"
    using a by (simp add: error_handler_def test_config_env createError_def status_or_500_def)
  have c1: "handle_request int_runtime test_config (load_routes int_runtime) test_inputs
     (Some seeded_store) ?req
   = (\<lparr>res_status = 404,
       res_body = HtmlPage (getErrorTemplateParams test_config None
          ''Your request is in error.'' (StackArray []) ?req)\<rparr>,
      Some seeded_store, [ParamCheck, Authenticate, Validator, Handler, ErrorHandler])"
    using out unfolding e by simp
  have c2: "tp_message (getErrorTemplateParams test_config None
          ''Your request is in error.'' (StackArray []) ?req) = ''Your request is in error.''"
    by (simp add: getErrorTemplateParams_def)
  from c1 c2 show ?thesis by (rule conjI)
qed

text \<open>
  C7, amended. An update with a well-formed identifier whose body passes the partial
  gate, and to which the store returns a result, is answered 204 when \<^verbatim>\<open>modifiedCount\<close>
  is positive. Otherwise the handler forwards
  \<^verbatim>\<open>createError(404, "Todo not found or not modified")\<close> and the answer has status 404; its
  JSON body carries exactly that message, and its HTML page carries it in development
  and \<^verbatim>\<open>Your request is in error.\<close> elsewhere. A document that matches and already holds
  the values of the update counts as not modified.
\<close>

theorem update_responds_by_modified_count:
  assumes "req_route req = UpdateTodo i"
    and "oid_is_valid rt i"
    and "update_gate (load_routes rt) (req_body req) = (JObj kvs, Next)"
    and "db = Some s"
    and "castObjectId rt i = Inr oid"
    and "updateOne s oid (map (\<lambda>(k, v). (k, Plain v)) kvs) = Inr (result, s')"
  shows "(0 < modifiedCount result \<longrightarrow>
            handle_request rt cfg (load_routes rt) inp db req =
              (sendStatus 204, Some s', [ParamCheck, Authenticate, Validator, Handler]))
       \<and> (\<not> 0 < modifiedCount result \<longrightarrow>
            handle_request rt cfg (load_routes rt) inp db req =
              (error_handler cfg (createError rt 404 ''Todo not found or not modified'') req,
               Some s', [ParamCheck, Authenticate, Validator, Handler, ErrorHandler])
            \<and> res_status (error_handler cfg
                  (createError rt 404 ''Todo not found or not modified'') req) = 404
            \<and> (accepts_json req \<longrightarrow>
                 res_body (error_handler cfg
                    (createError rt 404 ''Todo not found or not modified'') req)
                   = JsonValue (JObj [(''error'', JObj
                       ((''message'', JStr ''Todo not found or not modified'')
                        # (if app_env cfg = ''development''
                           then [(''stack'', JStr (stack_of rt ''Todo not found or not modified''))]
                           else [])))]))
            \<and> (\<not> accepts_json req \<longrightarrow>
                 (\<exists>page. res_body (error_handler cfg
                      (createError rt 404 ''Todo not found or not modified'') req) = HtmlPage page
                    \<and> tp_message page =
                        (if environment cfg = ''development''
                         then ''Todo not found or not modified''
                         else ''Your request is in error.''))))
       \<and> (\<forall>d. find (has_id (ObjectIdValue oid)) (docs s) = Some d
              \<and> set_fields d (map (\<lambda>(k, v). (k, Plain v)) kvs) = d
            \<longrightarrow> modifiedCount result = 0)"
proof -
  let ?e = "createError rt 404 ''Todo not found or not modified''"
  note out = update_request_outcome[OF assms, of cfg inp]
  have st: "res_status (error_handler cfg ?e req) = 404"
    by (simp add: error_handler_def createError_def status_or_500_def)
  have js: "accepts_json req \<longrightarrow>
                 res_body (error_handler cfg ?e req)
                   = JsonValue (JObj [(''error'', JObj
                       ((''message'', JStr ''Todo not found or not modified'')
                        # (if app_env cfg = ''development''
                           then [(''stack'', JStr (stack_of rt ''Todo not found or not modified''))]
                           else [])))])"
    by (simp add: error_handler_def createError_def)
  have ht: "\<not> accepts_json req \<longrightarrow>
                 (\<exists>page. res_body (error_handler cfg ?e req) = HtmlPage page
                    \<and> tp_message page =
                        (if environment cfg = ''development''
                         then ''Todo not found or not modified''
                         else ''Your request is in error.''))"
    by (simp add: error_handler_def createError_def getErrorTemplateParams_def)
  have unchanged: "\<forall>d. find (has_id (ObjectIdValue oid)) (docs s) = Some d
              \<and> set_fields d (map (\<lambda>(k, v). (k, Plain v)) kvs) = d
            \<longrightarrow> modifiedCount result = 0"
    using updateOne_unchanged[OF assms(6)] by blast
  have pos: "0 < modifiedCount result \<longrightarrow>
            handle_request rt cfg (load_routes rt) inp db req =
              (sendStatus 204, Some s', [ParamCheck, Authenticate, Validator, Handler])"
    by (simp add: out)
  have neg: "\<not> 0 < modifiedCount result \<longrightarrow>
            handle_request rt cfg (load_routes rt) inp db req =
              (error_handler cfg ?e req,
               Some s', [ParamCheck, Authenticate, Validator, Handler, ErrorHandler])"
    by (simp add: out)
  from pos neg st js ht unchanged show ?thesis by (intro conjI impI) (rule mp, assumption+)+
qed

theorem update_responds_by_modified_count_witness:
  "handle_request int_runtime test_config (load_routes int_runtime) test_inputs
         (Some seeded_store)
         (json_request (UpdateTodo sample_oid) ''PUT'' ''/v1/todo/507f1f77bcf86cd799439011''
            (JObj [(''is_complete'', JBool True)]))
       = (error_handler test_config
            (createError int_runtime 404 ''Todo not found or not modified'')
            (json_request (UpdateTodo sample_oid) ''PUT'' ''/v1/todo/507f1f77bcf86cd799439011''
               (JObj [(''is_complete'', JBool True)])),
          Some seeded_store, [ParamCheck, Authenticate, Validator, Handler, ErrorHandler])
   \<and> res_status (error_handler test_config
            (createError int_runtime 404 ''Todo not found or not modified'')
            (json_request (UpdateTodo sample_oid) ''PUT'' ''/v1/todo/507f1f77bcf86cd799439011''
               (JObj [(''is_complete'', JBool True)]))) = 404
   \<and> res_body (error_handler test_config
            (createError int_runtime 404 ''Todo not found or not modified'')
            (json_request (UpdateTodo sample_oid) ''PUT'' ''/v1/todo/507f1f77bcf86cd799439011''
               (JObj [(''is_complete'', JBool True)])))
       = JsonValue (JObj [(''error'',
            JObj [(''message'', JStr ''Todo not found or not modified'')])])
   \<and> handle_request int_runtime test_config (load_routes int_runtime) test_inputs
         (Some seeded_store)
         (json_request (UpdateTodo sample_oid) ''PUT'' ''/v1/todo/507f1f77bcf86cd799439011''
            (JObj [(''is_complete'', JBool False)]))
       = (sendStatus 204,
          Some \<lparr>fault = None,
             docs = [[(''_id'', ObjectIdValue sample_oid), (''task'', Plain (JStr ''Seed task 1'')),
                      (''priority'', Plain (JNum 1)), (''assigned_to'', Plain (JStr ''alice'')),
                      (''is_complete'', Plain (JBool False)),
                      (''date_created'', DateValue 1699999999)]]\<rparr>,
          [ParamCheck, Authenticate, Validator, Handler])"
proof -
  let ?k1 = "[(''is_complete'', JBool True)] :: (string \<times> int jsval) list"
  let ?k2 = "[(''is_complete'', JBool False)] :: (string \<times> int jsval) list"
  let ?r1 = "json_request (UpdateTodo sample_oid) ''PUT'' ''/v1/todo/507f1f77bcf86cd799439011''
                (JObj ?k1)"
  let ?r2 = "json_request (UpdateTodo sample_oid) ''PUT'' ''/v1/todo/507f1f77bcf86cd799439011''
                (JObj ?k2)"
  have r1: "req_route ?r1 = UpdateTodo sample_oid" and r2: "req_route ?r2 = UpdateTodo sample_oid"
    by (simp_all add: json_request_def)
  have g1: "update_gate (load_routes int_runtime) (req_body ?r1) = (JObj ?k1, Next)"
    using repeat_update_gate_example by (simp add: json_request_def)
  have g2: "update_gate (load_routes int_runtime) (req_body ?r2) = (JObj ?k2, Next)"
    using changing_update_gate_example by (simp add: json_request_def)
  have a1: "accepts_json ?r1" by (simp add: json_request_def)
  have n1: "\<not> 0 < modifiedCount \<lparr>matchedCount = 1, modifiedCount = 0\<rparr>" by simp
  have p2: "0 < modifiedCount \<lparr>matchedCount = 1, modifiedCount = 1\<rparr>" by simp
  note t1 = update_responds_by_modified_count[OF r1 sample_oid_valid(1) g1 refl
      sample_oid_valid(2) repeat_updateOne_example, of test_config test_inputs]
  note t2 = update_responds_by_modified_count[OF r2 sample_oid_valid(1) g2 refl
      sample_oid_valid(2) changing_updateOne_example, of test_config test_inputs]
  note c = t1[THEN conjunct2, THEN conjunct1, THEN mp, OF n1]
  note c_out = c[THEN conjunct1]
  note c_st = c[THEN conjunct2, THEN conjunct1]
  note c_js = c[THEN conjunct2, THEN conjunct2, THEN conjunct1, THEN mp, OF a1]
  have c_body: "res_body (error_handler test_config
            (createError int_runtime 404 ''Todo not found or not modified'') ?r1)
       = JsonValue (JObj [(''error'',
            JObj [(''message'', JStr ''Todo not found or not modified'')])])"
    using c_js by (simp add: test_config_env)
  note d = t2[THEN conjunct1, THEN mp, OF p2]
  from c_out c_st c_body d show ?thesis by (intro conjI)
qed

text \<open>
  C9, as stated, fails: the strict gate accepts a body whose \<^verbatim>\<open>is_complete\<close> is the text
  \<^verbatim>\<open>"false"\<close>; the document created (201) and fetched back holds the boolean \<^verbatim>\<open>false\<close>.
\<close>

theorem coerced_fields_counterexample:
  "handle_request int_runtime test_config (load_routes int_runtime) test_inputs
     (Some empty_store) (json_request CreateTodo ''POST'' ''/v1/todo'' (JObj loose_fields))
   = (\<lparr>res_status = 201, res_body = JsonDoc loose_doc\<rparr>,
      Some \<lparr>fault = None, docs = [loose_doc]\<rparr>, [Authenticate, Validator, Handler])
   \<and> handle_request int_runtime test_config (load_routes int_runtime) test_inputs
     (Some \<lparr>fault = None, docs = [loose_doc]\<rparr>)
     (json_request (GetTodo sample_oid) ''GET'' ''/v1/todo/507f1f77bcf86cd799439011'' (JObj []))
   = (\<lparr>res_status = 200, res_body = JsonDoc loose_doc\<rparr>,
      Some \<lparr>fault = None, docs = [loose_doc]\<rparr>, [ParamCheck, Authenticate, Handler])
   \<and> map_of loose_fields ''is_complete'' = Some (JStr ''false'')
   \<and> map_of loose_doc ''is_complete'' = Some (Plain (JBool False))"
proof -
  have a: "map_of loose_fields ''is_complete'' = Some (JStr ''false'')"
    by (simp add: loose_fields_def)
  have b: "map_of loose_doc ''is_complete'' = Some (Plain (JBool False))"
    by (simp add: loose_doc_def)
  from loose_post_example loose_get_example a b show ?thesis by (intro conjI)
qed

text \<open>
  C9, amended. For a body object the strict gate accepts, on a reachable store and
  with a fresh identifier, the create answers 201 with a document, and fetching by that
  identifier answers 200 with the same fields: \<^verbatim>\<open>_id\<close> is the new identifier,
  \<^verbatim>\<open>date_created\<close> the time of the create, and every other field is the input field as the
  validator coerced it. The input can carry neither \<^verbatim>\<open>_id\<close> nor \<^verbatim>\<open>date_created\<close>.
\<close>

theorem create_then_fetch:
  assumes "req_route req = CreateTodo"
    and "req_body req = JObj kvs" and "distinct (map fst kvs)"
    and "create_gate (load_routes rt) (req_body req) = (body', Next)"
    and "db = Some s" and "fault s = None"
    and "\<not> list_ex (has_id (ObjectIdValue (new_oid inp))) (docs s)"
    and "req_route req2 = GetTodo i" and "oid_is_valid rt i"
    and "castObjectId rt i = Inr (new_oid inp)"
  shows "\<exists>doc doc2 s'.
           handle_request rt cfg (load_routes rt) inp db req =
             (\<lparr>res_status = 201, res_body = JsonDoc doc\<rparr>, Some s',
              [Authenticate, Validator, Handler])
         \<and> handle_request rt cfg (load_routes rt) inp2 (Some s') req2 =
             (\<lparr>res_status = 200, res_body = JsonDoc doc2\<rparr>, Some s',
              [ParamCheck, Authenticate, Handler])
         \<and> map_of doc2 = map_of doc
         \<and> (\<forall>k. map_of doc k =
               (if k = ''_id'' then Some (ObjectIdValue (new_oid inp))
                else if k = ''date_created'' then Some (DateValue (now inp))
                else map_option (\<lambda>v. Plain (coerced_value rt (properties todo_schema) k v))
                       (map_of kvs k)))
         \<and> ''date_created'' \<notin> set (map fst kvs) \<and> ''_id'' \<notin> set (map fst kvs)"
proof -
  let ?kvs' = "fst (check_properties rt (properties todo_schema) kvs)"
  let ?oid = "new_oid inp"
  from assms(2,4) have g: "create_gate (load_routes rt) (JObj kvs) = (body', Next)" by simp
  from create_gate_pass[OF g]
  have closed: "closed_ok (properties todo_schema) kvs" and b': "body' = JObj ?kvs'" by simp_all
  have keys: "map fst ?kvs' = map fst kvs" by (rule keys_check_properties)
  from closed_ok_keys[OF closed]
  have k1: "''_id'' \<notin> set (map fst kvs)" and k2: "''date_created'' \<notin> set (map fst kvs)"
    by simp_all
  have dp: "distinct (map fst (properties todo_schema))" by (simp add: todo_schema_def)
  from create_on_clean_fields[of s ?oid ?kvs' rt "now inp"] assms(3,6,7) k1 k2
  obtain doc stored where
    c: "create rt (now inp) ?oid (Some s) (JObj ?kvs') = Inr (doc, s\<lparr>docs := docs s @ [stored]\<rparr>)"
    and hs: "has_id (ObjectIdValue ?oid) stored"
    and ms: "map_of stored = map_of doc"
    and md: "map_of doc = (map_of (map (\<lambda>(k, v). (k, Plain v)) ?kvs'))
               (''date_created'' \<mapsto> DateValue (now inp), ''_id'' \<mapsto> ObjectIdValue ?oid)"
    unfolding keys by blast
  let ?s' = "s\<lparr>docs := docs s @ [stored]\<rparr>"
  have gu: "create_gate (load_routes rt) (req_body (req\<lparr>req_user := Some stub_user\<rparr>))
              = (JObj ?kvs', Next)" using assms(4) b' by simp
  have post: "handle_request rt cfg (load_routes rt) inp db req =
             (\<lparr>res_status = 201, res_body = JsonDoc doc\<rparr>, Some ?s',
              [Authenticate, Validator, Handler])"
    by (simp add: handle_request_def assms(1,5) route_stack_def run_stack_auth
        run_stack_validator_pass[where g = "create_gate (load_routes rt)"
          and req = "req\<lparr>req_user := Some stub_user\<rparr>", OF gu]
        post_handler_def c)
  have f: "find (has_id (ObjectIdValue ?oid)) (docs s @ [stored]) = Some stored"
    using assms(7) hs by (rule find_appended)
  have "getById rt (Some ?s') i = Inr (Some stored)"
    using assms(6,10) f by (simp add: getById_def collection_def findOne_def)
  then have get: "handle_request rt cfg (load_routes rt) inp2 (Some ?s') req2 =
             (\<lparr>res_status = 200, res_body = JsonDoc stored\<rparr>, Some ?s',
              [ParamCheck, Authenticate, Handler])"
    by (simp add: handle_request_def assms(8) route_stack_def
        run_stack_param_valid[OF assms(9)] run_stack_auth get_handler_def)
  have vals: "\<forall>k. map_of doc k =
               (if k = ''_id'' then Some (ObjectIdValue (new_oid inp))
                else if k = ''date_created'' then Some (DateValue (now inp))
                else map_option (\<lambda>v. Plain (coerced_value rt (properties todo_schema) k v))
                       (map_of kvs k))"
    by (simp add: md map_of_plain values_check_properties[OF dp] option.map_comp comp_def)
  show ?thesis
    using post get ms vals k1 k2
    by (intro exI[of _ doc] exI[of _ stored] exI[of _ ?s'] conjI)
qed

theorem create_then_fetch_witness:
  "create_gate (load_routes int_runtime) (JObj loose_fields)
     = (JObj [(''task'', JStr ''x''), (''priority'', JNum 1), (''assigned_to'', JStr ''a''),
              (''is_complete'', JBool False)], Next)
   \<and> (\<exists>doc doc2 s'.
         handle_request int_runtime test_config (load_routes int_runtime) test_inputs
           (Some empty_store) (json_request CreateTodo ''POST'' ''/v1/todo'' (JObj loose_fields)) =
           (\<lparr>res_status = 201, res_body = JsonDoc doc\<rparr>, Some s',
            [Authenticate, Validator, Handler])
       \<and> handle_request int_runtime test_config (load_routes int_runtime) test_inputs (Some s')
           (json_request (GetTodo sample_oid) ''GET'' ''/v1/todo/507f1f77bcf86cd799439011''
              (JObj [])) =
           (\<lparr>res_status = 200, res_body = JsonDoc doc2\<rparr>, Some s',
            [ParamCheck, Authenticate, Handler])
       \<and> map_of doc2 = map_of doc
       \<and> (\<forall>k. map_of doc k =
             (if k = ''_id'' then Some (ObjectIdValue (new_oid test_inputs))
              else if k = ''date_created'' then Some (DateValue (now test_inputs))
              else map_option (\<lambda>v. Plain (coerced_value int_runtime (properties todo_schema) k v))
                     (map_of loose_fields k)))
       \<and> ''date_created'' \<notin> set (map fst loose_fields)
       \<and> ''_id'' \<notin> set (map fst loose_fields))"
proof -
  let ?req = "json_request CreateTodo ''POST'' ''/v1/todo'' (JObj loose_fields)"
  let ?req2 = "json_request (GetTodo sample_oid) ''GET'' ''/v1/todo/507f1f77bcf86cd799439011''
                 (JObj []) :: int request"
  have h1: "req_route ?req = CreateTodo" by (simp add: json_request_def)
  have h2: "req_body ?req = JObj loose_fields" by (simp add: json_request_def)
  have h3: "distinct (map fst loose_fields)" by (simp add: loose_fields_def)
  have h4: "create_gate (load_routes int_runtime) (req_body ?req)
     = (JObj [(''task'', JStr ''x''), (''priority'', JNum 1), (''assigned_to'', JStr ''a''),
              (''is_complete'', JBool False)], Next)"
    unfolding h2 by (rule loose_gate_example)
  have h6: "fault empty_store = None" by (simp add: empty_store_def)
  have h7: "\<not> list_ex (has_id (ObjectIdValue (new_oid test_inputs))) (docs empty_store)"
    by (simp add: empty_store_def)
  have h8: "req_route ?req2 = GetTodo sample_oid" by (simp add: json_request_def)
  have h10: "castObjectId int_runtime sample_oid = Inr (new_oid test_inputs)"
    using sample_oid_valid(2) by (simp add: test_inputs_def)
  note t = create_then_fetch[OF h1 h2 h3 h4 refl h6 h7 h8 sample_oid_valid(1) h10,
      of test_config test_inputs]
  from loose_gate_example t show ?thesis by (rule conjI)
qed




end
